theory Spec2Isabelle
  imports Complex_Main "HOL-Library.Signed_Division" "HOL-Library.List_Lexorder"
begin

section \<open>JavaScript values used by the schedule text generator\<close>

text \<open>
  Strings are sequences of UTF-16 code units, so that the Japanese text of the holiday
  data is representable and \<open>trim\<close> sees every white-space code unit. ASCII literals are
  written \<open>js ''...''\<close>. Most numbers handled by the program are integers (cell
  attributes read with \<open>parseInt\<close>, calendar fields, minutes of the day); where the source
  can meet \<open>NaN\<close> the model says so with \<open>None\<close>. The remainder operator \<open>%\<close>
  truncates towards zero, which is \<open>smod\<close> on integers. The functions of the time grid
  that take an hour, a minute or an index from their caller do not ask for an integer:
  their arguments are rational numbers, on which \<open>%\<close> is \<open>remainder\<close>.
\<close>

type_synonym jsstring = "nat list"

definition js :: "string \<Rightarrow> jsstring" where
  "js s = map of_char s"

definition digitChar :: "nat \<Rightarrow> nat" where
  "digitChar d = 48 + d"

fun natToString :: "nat \<Rightarrow> jsstring" where
  "natToString n = (if n < 10 then [digitChar n] else natToString (n div 10) @ [digitChar (n mod 10)])"

declare natToString.simps [simp del]

definition numberToString :: "int \<Rightarrow> jsstring" where
  "numberToString i = (if i < 0 then 45 # natToString (nat (- i)) else natToString (nat i))"

text \<open>\<open>String(x)\<close> of a number that may be \<open>NaN\<close>.\<close>

definition numToString :: "int option \<Rightarrow> jsstring" where
  "numToString x = (case x of None \<Rightarrow> js ''NaN'' | Some i \<Rightarrow> numberToString i)"

text \<open>\<open>s.padStart(n, c)\<close> with a one-character filler.\<close>

definition padStart :: "nat \<Rightarrow> nat \<Rightarrow> jsstring \<Rightarrow> jsstring" where
  "padStart n c s = replicate (n - length s) c @ s"

text \<open>
  \<open>a % b\<close> on numbers that need not be integers, for \<open>b\<close> other than 0: what is left of
  \<open>a\<close> after taking away \<open>b\<close> times the quotient cut towards zero.
\<close>

definition trunc :: "rat \<Rightarrow> int" where
  "trunc q = (if q < 0 then \<lceil>q\<rceil> else \<lfloor>q\<rfloor>)"

definition remainder :: "rat \<Rightarrow> rat \<Rightarrow> rat" where
  "remainder a b = a - b * of_int (trunc (a / b))"

section \<open>Dates: time values and the calendar\<close>

text \<open>
  A \<open>Date\<close> object holds a time value, the milliseconds since 1970-01-01T00:00Z, or
  \<open>NaN\<close> (an invalid date, \<open>None\<close>). The functions below are those of the
  ECMAScript specification of \<open>Date\<close>. The getters, \<open>setDate\<close> and
  \<open>new Date(year, month, day)\<close> work in the local time of the host, whose time zone
  \<open>tz\<close> is a parameter of the model.
\<close>

type_synonym Date = "int option"

definition msPerDay :: int where
  "msPerDay = 86400000"

definition maxTime :: int where
  "maxTime = 8640000000000000"

definition Day :: "int \<Rightarrow> int" where
  "Day t = t div msPerDay"

definition TimeWithinDay :: "int \<Rightarrow> int" where
  "TimeWithinDay t = t mod msPerDay"

definition DaysInYear :: "int \<Rightarrow> int" where
  "DaysInYear y =
     (if y mod 4 \<noteq> 0 then 365 else if y mod 100 \<noteq> 0 then 366
      else if y mod 400 \<noteq> 0 then 365 else 366)"

definition DayFromYear :: "int \<Rightarrow> int" where
  "DayFromYear y = 365 * (y - 1970) + (y - 1969) div 4 - (y - 1901) div 100 + (y - 1601) div 400"

text \<open>
  The year of a day number: the largest \<open>y\<close> with \<open>DayFromYear y \<le> d\<close>, computed from
  the mean length of a year and corrected by at most one (\<open>YearFromDay_bounds\<close> below).
\<close>

definition YearFromDay :: "int \<Rightarrow> int" where
  "YearFromDay d =
     (let y = 1970 + (400 * d) div 146097
      in if d < DayFromYear y then y - 1
         else if DayFromYear (y + 1) \<le> d then y + 1
         else y)"

definition YearFromTime :: "int \<Rightarrow> int" where
  "YearFromTime t = YearFromDay (Day t)"

definition leapDays :: "int \<Rightarrow> int" where
  "leapDays y = (if DaysInYear y = 366 then 1 else 0)"

definition InLeapYear :: "int \<Rightarrow> int" where
  "InLeapYear t = leapDays (YearFromTime t)"

definition DayWithinYear :: "int \<Rightarrow> int" where
  "DayWithinYear t = Day t - DayFromYear (YearFromTime t)"

text \<open>The day within the year on which month \<open>m\<close> (0 to 11) starts; \<open>monthStart 12\<close> is the year's length.\<close>

definition monthStart :: "int \<Rightarrow> int \<Rightarrow> int" where
  "monthStart m l =
     (if m \<le> 0 then 0 else if m = 1 then 31 else if m = 2 then 59 + l
      else if m = 3 then 90 + l else if m = 4 then 120 + l else if m = 5 then 151 + l
      else if m = 6 then 181 + l else if m = 7 then 212 + l else if m = 8 then 243 + l
      else if m = 9 then 273 + l else if m = 10 then 304 + l else if m = 11 then 334 + l
      else 365 + l)"

definition MonthFromTime :: "int \<Rightarrow> int" where
  "MonthFromTime t =
     (let d = DayWithinYear t; l = InLeapYear t
      in if d < 31 then 0 else if d < 59 + l then 1 else if d < 90 + l then 2
         else if d < 120 + l then 3 else if d < 151 + l then 4 else if d < 181 + l then 5
         else if d < 212 + l then 6 else if d < 243 + l then 7 else if d < 273 + l then 8
         else if d < 304 + l then 9 else if d < 334 + l then 10 else 11)"

definition DateFromTime :: "int \<Rightarrow> int" where
  "DateFromTime t = DayWithinYear t - monthStart (MonthFromTime t) (InLeapYear t) + 1"

definition WeekDay :: "int \<Rightarrow> int" where
  "WeekDay t = (Day t + 4) mod 7"

definition MakeDay :: "int \<Rightarrow> int \<Rightarrow> int \<Rightarrow> int" where
  "MakeDay year month dt =
     (let ym = year + month div 12; mn = month mod 12
      in DayFromYear ym + monthStart mn (leapDays ym) + dt - 1)"

definition MakeDate :: "int \<Rightarrow> int \<Rightarrow> int" where
  "MakeDate day tm = day * msPerDay + tm"

definition TimeClip :: "int \<Rightarrow> Date" where
  "TimeClip t = (if \<bar>t\<bar> > maxTime then None else Some t)"

text \<open>
  The host's time zone. \<open>offsetAtUTC tz t\<close> is the offset of local time from UTC, in
  milliseconds, in force at the time value \<open>t\<close>; \<open>offsetAtLocal tz t\<close> is the offset by which
  the local time \<open>t\<close> is read back (the \<open>LocalTZA\<close> of the ECMAScript specification with
  \<open>isUTC\<close> true and false). At a change of offset the two differ: a local time that the
  change skips is read with the offset before the change.
\<close>

record timeZone =
  offsetAtUTC :: "int \<Rightarrow> int"
  offsetAtLocal :: "int \<Rightarrow> int"

definition LocalTime :: "timeZone \<Rightarrow> int \<Rightarrow> int" where
  "LocalTime tz t = t + offsetAtUTC tz t"

definition UTC :: "timeZone \<Rightarrow> int \<Rightarrow> int" where
  "UTC tz t = t - offsetAtLocal tz t"

text \<open>A zone without changes of offset; Japan Standard Time is \<open>fixedOffset 32400000\<close>.\<close>

definition fixedOffset :: "int \<Rightarrow> timeZone" where
  "fixedOffset tza = \<lparr>offsetAtUTC = (\<lambda>t. tza), offsetAtLocal = (\<lambda>t. tza)\<rparr>"

text \<open>
  The offsets of Pacific/Apia around the end of 2011, when Samoa moved across the date
  line: at 2011-12-30T10:00Z, the end of Thursday 29 December there, the offset went from
  10 hours behind UTC to 14 hours ahead of it, and Friday 30 December did not take place.
  A local time of that day is read with the offset before the change.
\<close>

definition apiaZone :: timeZone where
  "apiaZone = \<lparr>offsetAtUTC = (\<lambda>t. if t < 1325239200000 then - 36000000 else 50400000),
               offsetAtLocal = (\<lambda>t. if t < 1325289600000 then - 36000000 else 50400000)\<rparr>"

text \<open>The getters of \<open>Date.prototype\<close>, in local time; on an invalid date they give \<open>NaN\<close>.\<close>

definition getFullYear :: "timeZone \<Rightarrow> Date \<Rightarrow> int option" where
  "getFullYear tz d = map_option (\<lambda>t. YearFromTime (LocalTime tz t)) d"

definition getMonth :: "timeZone \<Rightarrow> Date \<Rightarrow> int option" where
  "getMonth tz d = map_option (\<lambda>t. MonthFromTime (LocalTime tz t)) d"

definition getDate :: "timeZone \<Rightarrow> Date \<Rightarrow> int option" where
  "getDate tz d = map_option (\<lambda>t. DateFromTime (LocalTime tz t)) d"

definition getDay :: "timeZone \<Rightarrow> Date \<Rightarrow> int option" where
  "getDay tz d = map_option (\<lambda>t. WeekDay (LocalTime tz t)) d"

definition getTime :: "Date \<Rightarrow> int option" where
  "getTime d = d"

text \<open>
  \<open>d.setDate(dt)\<close>: the day of the month is replaced, days outside the month carrying
  into the neighbouring months, and the result is clipped to the range of time values.
  The model returns the date after the call.
\<close>

definition setDate :: "timeZone \<Rightarrow> Date \<Rightarrow> int option \<Rightarrow> Date" where
  "setDate tz d dt =
     (case d of
        None \<Rightarrow> None
      | Some t0 \<Rightarrow>
          (case dt of
             None \<Rightarrow> None
           | Some n \<Rightarrow>
               let t = LocalTime tz t0;
                   newDate = MakeDate (MakeDay (YearFromTime t) (MonthFromTime t) n) (TimeWithinDay t)
               in TimeClip (UTC tz newDate)))"

text \<open>
  \<open>new Date(year, monthIndex, day)\<close>: local midnight of that day; a year from 0 to 99
  stands for 1900 + year, and a \<open>NaN\<close> argument gives an invalid date.
\<close>

definition newDate3 :: "timeZone \<Rightarrow> int option \<Rightarrow> int option \<Rightarrow> int option \<Rightarrow> Date" where
  "newDate3 tz year monthIndex day =
     (case (year, monthIndex, day) of
        (Some y, Some m, Some dt) \<Rightarrow>
          let yr = (if 0 \<le> y \<and> y \<le> 99 then 1900 + y else y)
          in TimeClip (UTC tz (MakeDate (MakeDay yr m dt) 0))
      | _ \<Rightarrow> None)"

section \<open>Scheduler: the daily time grid (js/scheduler.js)\<close>

record timeRange =
  rangeStartHour :: int
  rangeEndHour :: int
  minuteInterval :: int

text \<open>The configuration set by the constructor of \<open>Scheduler\<close>.\<close>

definition defaultTimeRange :: timeRange where
  "defaultTimeRange = \<lparr>rangeStartHour = 9, rangeEndHour = 18, minuteInterval = 15\<rparr>"

text \<open>
  An object with an \<open>hour\<close> and a \<open>minute\<close>: integers in the slots of the grid and in
  the cells of a selection, any number in what \<open>minutesToTime\<close> returns.
\<close>

record 'n time =
  hour :: 'n
  minute :: 'n

record timeSlot = "int time" +
  timeString :: jsstring
  isHourMark :: bool

definition mkSlot :: "int \<Rightarrow> int \<Rightarrow> timeSlot" where
  "mkSlot h m = \<lparr>hour = h, minute = m,
     timeString = numberToString h @ js '':'' @ padStart 2 48 (numberToString m),
     isHourMark = (m = 0)\<rparr>"

text \<open>
  The inner loop of \<open>generateTimeSlots\<close>, \<open>for (minute = 0; minute < 60; minute += minuteInterval)\<close>
  with its \<open>break\<close>. With an interval that is not positive the loop never ends, which is the
  value \<open>None\<close>.
\<close>

partial_function (option) minuteLoop :: "timeRange \<Rightarrow> int \<Rightarrow> int \<Rightarrow> timeSlot list \<Rightarrow> timeSlot list option" where
  "minuteLoop tr h m slots =
     (if m < 60
      then (if h = rangeEndHour tr \<and> m > 0 then Some slots
            else minuteLoop tr h (m + minuteInterval tr) (slots @ [mkSlot h m]))
      else Some slots)"

function hourLoop :: "timeRange \<Rightarrow> int \<Rightarrow> timeSlot list \<Rightarrow> timeSlot list option" where
  "hourLoop tr h slots =
     (if h \<le> rangeEndHour tr
      then (case minuteLoop tr h 0 slots of
              None \<Rightarrow> None
            | Some slots' \<Rightarrow> hourLoop tr (h + 1) slots')
      else Some slots)"
  by pat_completeness auto
termination
  by (relation "measure (\<lambda>(tr, h, slots). nat (rangeEndHour tr + 1 - h))") auto

declare hourLoop.simps [simp del]

definition generateTimeSlots :: "timeRange \<Rightarrow> timeSlot list option" where
  "generateTimeSlots tr = hourLoop tr (rangeStartHour tr) []"

text \<open>
  \<open>isValidTime\<close> compares the hour and the minute it is given with the range, whatever
  numbers they are (it does not ask for integers); \<open>minute % minuteInterval === 0\<close> is
  false when the interval is 0, the remainder being \<open>NaN\<close>. \<open>NaN\<close> and the infinities
  fail one of the comparisons, so that only finite numbers are accepted.
\<close>

definition isValidTime :: "timeRange \<Rightarrow> rat \<Rightarrow> rat \<Rightarrow> bool" where
  "isValidTime tr h m \<longleftrightarrow>
     h \<ge> of_int (rangeStartHour tr) \<and> h \<le> of_int (rangeEndHour tr) \<and> m \<ge> 0 \<and> m < 60 \<and>
     minuteInterval tr \<noteq> 0 \<and> remainder m (of_int (minuteInterval tr)) = 0"

definition timeToMinutes :: "rat \<Rightarrow> rat \<Rightarrow> rat" where
  "timeToMinutes h m = h * 60 + m"


definition isValidTimeRange :: "timeRange \<Rightarrow> rat \<Rightarrow> rat \<Rightarrow> rat \<Rightarrow> rat \<Rightarrow> bool" where
  "isValidTimeRange tr sh sm eh em \<longleftrightarrow>
     isValidTime tr sh sm \<and> isValidTime tr eh em \<and>
     timeToMinutes eh em > timeToMinutes sh sm \<and>
     (eh < of_int (rangeEndHour tr) \<or> (eh = of_int (rangeEndHour tr) \<and> em = 0))"



section \<open>Scheduler: weeks and the holiday check (js/scheduler.js)\<close>

text \<open>
  \<open>getMonday\<close>: \<open>new Date(date)\<close> copies the time value; on an invalid date every
  getter is \<open>NaN\<close> and so is \<open>diff\<close>.
\<close>

definition getMonday :: "timeZone \<Rightarrow> Date \<Rightarrow> Date" where
  "getMonday tz date =
     (let d = date;
          diff = (case (getDate tz d, getDay tz d) of
                    (Some dd, Some day) \<Rightarrow> Some (dd - day + (if day = 0 then - 6 else 1))
                  | _ \<Rightarrow> None)
      in setDate tz d diff)"

text \<open>\<open>getWeekDates\<close> reads the scheduler's \<open>currentWeek\<close>, passed here as an argument.\<close>

definition getWeekDates :: "timeZone \<Rightarrow> Date \<Rightarrow> Date list" where
  "getWeekDates tz currentWeek =
     (let monday = getMonday tz currentWeek
      in map (\<lambda>i. setDate tz monday (map_option (\<lambda>m. m + i) (getDate tz monday)))
           [0, 1, 2, 3, 4, 5, 6])"

text \<open>The local calendar day of a date, counted in days from 1970-01-01.\<close>

definition calendarDay :: "timeZone \<Rightarrow> Date \<Rightarrow> int option" where
  "calendarDay tz d = map_option (\<lambda>t. Day (LocalTime tz t)) d"

definition fallbackHolidayCheck :: "timeZone \<Rightarrow> Date \<Rightarrow> bool" where
  "fallbackHolidayCheck tz date =
     (let month = map_option (\<lambda>m. m + 1) (getMonth tz date);
          day = getDate tz date;
          basicHolidays = [js ''1-1'', js ''5-3'', js ''5-4'', js ''5-5'', js ''11-3'', js ''11-23''];
          dateKey = numToString month @ js ''-'' @ numToString day
      in dateKey \<in> set basicHolidays)"

section \<open>HolidayService (js/holidayService.js)\<close>

datatype jsError = RangeError | TypeError

text \<open>
  The two warnings written with \<open>console.warn\<close>: the one of \<open>HolidayService.isHoliday\<close>
  (the service is not initialised) and the one of \<open>Scheduler.isHoliday\<close> (the service is
  not initialised, only the basic holidays are judged).
\<close>

datatype consoleLine = WarnServiceNotInitialized | WarnSchedulerBasicHolidays

record holidayEntry =
  date :: jsstring
  name :: jsstring

text \<open>
  The service object. \<open>holidayData\<close> is the loaded JSON, of which only the mapping
  \<open>holidays\<close> from a year's decimal string to its entries is read; \<open>fallbackHolidays\<close>
  holds the list \<open>fixedHolidays\<close>. Both are \<open>null\<close> (\<open>None\<close>) in a new service.
\<close>

record holidayService =
  holidayData :: "(jsstring \<rightharpoonup> holidayEntry list) option"
  fallbackHolidays :: "jsstring list option"
  isInitialized :: bool

definition newHolidayService :: holidayService where
  "newHolidayService = \<lparr>holidayData = None, fallbackHolidays = None, isInitialized = False\<rparr>"

definition fixedHolidays :: "jsstring list" where
  "fixedHolidays = [js ''1-1'', js ''2-11'', js ''4-29'', js ''5-3'', js ''5-4'', js ''5-5'',
     js ''8-11'', js ''11-3'', js ''11-23'', js ''12-23'']"

text \<open>The two outcomes of \<open>_performInitialization\<close>: the JSON was loaded, or the fallback list is installed.\<close>

definition initializedFromJSON :: "(jsstring \<rightharpoonup> holidayEntry list) \<Rightarrow> holidayService" where
  "initializedFromJSON h = \<lparr>holidayData = Some h, fallbackHolidays = None, isInitialized = True\<rparr>"

definition initializedFallback :: holidayService where
  "initializedFallback = \<lparr>holidayData = None, fallbackHolidays = Some fixedHolidays, isInitialized = True\<rparr>"

text \<open>
  \<open>date.toISOString()\<close>: the UTC fields as \<open>YYYY-MM-DDTHH:mm:ss.sssZ\<close>, the year with a
  sign and six digits outside 0 to 9999; a \<open>RangeError\<close> on an invalid date.
\<close>

definition isoYear :: "int \<Rightarrow> jsstring" where
  "isoYear y =
     (if 0 \<le> y \<and> y \<le> 9999 then padStart 4 48 (natToString (nat y))
      else (if y < 0 then 45 else 43) # padStart 6 48 (natToString (nat \<bar>y\<bar>)))"

definition pad2 :: "int \<Rightarrow> jsstring" where
  "pad2 i = padStart 2 48 (numberToString i)"

text \<open>The calendar date of a time value in UTC, as the ISO string \<open>YYYY-MM-DD\<close>.\<close>

definition isoDate :: "int \<Rightarrow> jsstring" where
  "isoDate t =
     isoYear (YearFromTime t) @ js ''-'' @ pad2 (MonthFromTime t + 1) @ js ''-'' @ pad2 (DateFromTime t)"

definition toISOString :: "Date \<Rightarrow> jsError + jsstring" where
  "toISOString d =
     (case d of
        None \<Rightarrow> Inl RangeError
      | Some t \<Rightarrow> Inr (isoDate t @ js ''T'' @ pad2 ((t div 3600000) mod 24) @ js '':''
          @ pad2 ((t div 60000) mod 60) @ js '':'' @ pad2 ((t div 1000) mod 60) @ js ''.''
          @ padStart 3 48 (numberToString (t mod 1000)) @ js ''Z''))"

text \<open>\<open>s.split(c)\<close> for a separator of one character: at least one piece.\<close>

fun splitOn :: "nat \<Rightarrow> jsstring \<Rightarrow> jsstring list" where
  "splitOn c [] = [[]]"
| "splitOn c (x # xs) =
     (if x = c then [] # splitOn c xs
      else (case splitOn c xs of
              [] \<Rightarrow> [[x]]
            | p # ps \<Rightarrow> (x # p) # ps))"

text \<open>\<open>date.toISOString().split('T')[0]\<close>.\<close>

definition isoDateOf :: "Date \<Rightarrow> jsError + jsstring" where
  "isoDateOf d = (case toISOString d of Inl e \<Rightarrow> Inl e | Inr s \<Rightarrow> Inr (hd (splitOn 84 s)))"

definition isHolidayFromJSON :: "timeZone \<Rightarrow> (jsstring \<rightharpoonup> holidayEntry list) \<Rightarrow> Date \<Rightarrow> jsError + bool" where
  "isHolidayFromJSON tz holidays d =
     (let year = numToString (getFullYear tz d)
      in case isoDateOf d of
           Inl e \<Rightarrow> Inl e
         | Inr isoDateStr \<Rightarrow>
             (case holidays year of
                None \<Rightarrow> Inr False
              | Some entries \<Rightarrow> Inr (list_ex (\<lambda>holiday. date holiday = isoDateStr) entries)))"

text \<open>A loaded mapping with two holidays of 2025, for the examples.\<close>

definition exampleHolidays :: "jsstring \<rightharpoonup> holidayEntry list" where
  "exampleHolidays = [js ''2025'' \<mapsto> [\<lparr>date = js ''2025-01-01'', name = js ''New Year''\<rparr>,
      \<lparr>date = js ''2025-07-21'', name = js ''Marine Day''\<rparr>]]"

definition getNthWeekdayOfMonth :: "timeZone \<Rightarrow> int \<Rightarrow> int \<Rightarrow> int \<Rightarrow> int \<Rightarrow> Date" where
  "getNthWeekdayOfMonth tz year month weekday n =
     (let firstDay = newDate3 tz (Some year) (Some (month - 1)) (Some 1);
          firstWeekday = getDay tz firstDay;
          offset = map_option (\<lambda>fw. (weekday - fw + 7) smod 7) firstWeekday
      in newDate3 tz (Some year) (Some (month - 1)) (map_option (\<lambda>off. 1 + off + (n - 1) * 7) offset))"

text \<open>
  \<open>_isHolidayFromFallback\<close>. The second Monday of January is computed as the first
  one, moved by \<open>setDate\<close> seven days on. On an invalid date the month is \<open>NaN\<close>, the key is
  \<open>NaN-NaN\<close> and no moving rule applies. \<open>a === b\<close> on two day numbers is false when
  one of them is \<open>NaN\<close>.
\<close>

definition secondMondayOfJanuary :: "timeZone \<Rightarrow> int \<Rightarrow> Date" where
  "secondMondayOfJanuary tz year =
     (let firstMonday = getNthWeekdayOfMonth tz year 1 1 1
      in setDate tz firstMonday (map_option (\<lambda>x. x + 7) (getDate tz firstMonday)))"

definition isHolidayFromFallback :: "timeZone \<Rightarrow> jsstring list \<Rightarrow> Date \<Rightarrow> bool" where
  "isHolidayFromFallback tz fixed d =
     (case d of
        None \<Rightarrow> js ''NaN-NaN'' \<in> set fixed
      | Some t \<Rightarrow>
          let month = MonthFromTime (LocalTime tz t) + 1;
              day = DateFromTime (LocalTime tz t);
              year = YearFromTime (LocalTime tz t);
              dateKey = numberToString month @ js ''-'' @ numberToString day
          in if dateKey \<in> set fixed then True
             else if month = 1 \<and> getDay tz d = Some 1 \<and>
                     Some day = getDate tz (secondMondayOfJanuary tz year) then True
             else if month = 7 \<and> getDay tz d = Some 1 \<and>
                     Some day = getDate tz (getNthWeekdayOfMonth tz year 7 1 3) then True
             else if month = 9 \<and> getDay tz d = Some 1 \<and>
                     Some day = getDate tz (getNthWeekdayOfMonth tz year 9 1 3) then True
             else if month = 10 \<and> getDay tz d = Some 1 \<and>
                     Some day = getDate tz (getNthWeekdayOfMonth tz year 10 1 2) then True
             else False)"

text \<open>
  \<open>HolidayService.isHoliday\<close>: the lines written to the console and the value returned, or
  the exception thrown (\<open>Inl\<close>).
\<close>

definition isHoliday :: "timeZone \<Rightarrow> holidayService \<Rightarrow> Date \<Rightarrow> consoleLine list \<times> (jsError + bool)" where
  "isHoliday tz svc d =
     (if \<not> isInitialized svc then ([WarnServiceNotInitialized], Inr False)
      else case holidayData svc of
             Some h \<Rightarrow> ([], isHolidayFromJSON tz h d)
           | None \<Rightarrow>
               (case fallbackHolidays svc of
                  Some fixed \<Rightarrow> ([], Inr (isHolidayFromFallback tz fixed d))
                | None \<Rightarrow> ([], Inr False)))"

text \<open>
  \<open>Scheduler.isHoliday\<close>: \<open>window.holidayService\<close> may be missing (\<open>None\<close>). Before the
  service is initialised the scheduler warns and judges by its own list of basic holidays.
\<close>

definition schedulerIsHoliday :: "timeZone \<Rightarrow> holidayService option \<Rightarrow> Date \<Rightarrow> consoleLine list \<times> (jsError + bool)" where
  "schedulerIsHoliday tz windowHolidayService d =
     (case windowHolidayService of
        Some svc \<Rightarrow>
          if isInitialized svc then isHoliday tz svc d
          else ([WarnSchedulerBasicHolidays], Inr (fallbackHolidayCheck tz d))
      | None \<Rightarrow> ([WarnSchedulerBasicHolidays], Inr (fallbackHolidayCheck tz d)))"

section \<open>TextGenerator: candidates, their order and their conflicts\<close>

text \<open>
  A candidate as the application builds it. \<open>isFullDay\<close> and \<open>dayOffset\<close> are optional
  properties: a missing \<open>isFullDay\<close> is falsy.
\<close>

record candidate =
  id_c :: int
  date_c :: Date
  startHour :: int
  startMinute :: int
  endHour :: int
  endMinute :: int
  isFullDay :: bool
  dayOffset :: "int option"

definition startMinutes :: "candidate \<Rightarrow> int" where
  "startMinutes c = startHour c * 60 + startMinute c"

definition endMinutes :: "candidate \<Rightarrow> int" where
  "endMinutes c = endHour c * 60 + endMinute c"

definition getDateKey :: "timeZone \<Rightarrow> Date \<Rightarrow> jsstring" where
  "getDateKey tz d =
     (let year = getFullYear tz d;
          month = padStart 2 48 (numToString (map_option (\<lambda>m. m + 1) (getMonth tz d)));
          day = padStart 2 48 (numToString (getDate tz d))
      in numToString year @ js ''-'' @ month @ js ''-'' @ day)"

text \<open>
  The comparison function of \<open>sortCandidates\<close>; \<open>None\<close> is \<open>NaN\<close>, returned when a
  date is invalid.
\<close>

definition compareCandidates :: "candidate \<Rightarrow> candidate \<Rightarrow> int option" where
  "compareCandidates a b =
     (case (getTime (date_c a), getTime (date_c b)) of
        (Some ta, Some tb) \<Rightarrow>
          if ta - tb \<noteq> 0 then Some (ta - tb) else Some (startMinutes a - startMinutes b)
      | _ \<Rightarrow> None)"

text \<open>
  \<open>Array.prototype.sort\<close> is stable, and takes a \<open>NaN\<close> from the comparison function
  as 0. It is modelled as the stable insertion sort: each element goes behind the
  elements it does not precede. (With a comparison function that is not a consistent
  order the language leaves the result to the implementation.)
\<close>

fun insertBy :: "('a \<Rightarrow> 'a \<Rightarrow> bool) \<Rightarrow> 'a \<Rightarrow> 'a list \<Rightarrow> 'a list" where
  "insertBy precedes x [] = [x]"
| "insertBy precedes x (y # ys) =
     (if precedes x y then x # y # ys else y # insertBy precedes x ys)"

definition sortBy :: "('a \<Rightarrow> 'a \<Rightarrow> bool) \<Rightarrow> 'a list \<Rightarrow> 'a list" where
  "sortBy precedes xs = foldl (\<lambda>acc x. insertBy precedes x acc) [] xs"

definition candidateBefore :: "candidate \<Rightarrow> candidate \<Rightarrow> bool" where
  "candidateBefore a b = (case compareCandidates a b of Some v \<Rightarrow> v < 0 | None \<Rightarrow> False)"

definition sortCandidates :: "candidate list \<Rightarrow> candidate list" where
  "sortCandidates candidates = sortBy candidateBefore candidates"

record conflict =
  candidate1 :: candidate
  candidate2 :: candidate
  conflictType :: string

text \<open>
  \<open>checkTimeConflicts\<close>: the loop over \<open>j = i + 1, ...\<close> for one \<open>a = candidates[i]\<close>,
  then the loop over \<open>i\<close>.
\<close>

definition timeOverlap :: "timeZone \<Rightarrow> candidate \<Rightarrow> candidate \<Rightarrow> bool" where
  "timeOverlap tz a b \<longleftrightarrow>
     getDateKey tz (date_c a) = getDateKey tz (date_c b) \<and>
     (let aStart = startHour a * 60 + startMinute a;
          aEnd = endHour a * 60 + endMinute a;
          bStart = startHour b * 60 + startMinute b;
          bEnd = endHour b * 60 + endMinute b
      in aStart < bEnd \<and> aEnd > bStart)"

definition mkConflict :: "candidate \<Rightarrow> candidate \<Rightarrow> conflict" where
  "mkConflict a b = \<lparr>candidate1 = a, candidate2 = b, conflictType = ''time_overlap''\<rparr>"

fun conflictsWith :: "timeZone \<Rightarrow> candidate \<Rightarrow> candidate list \<Rightarrow> conflict list" where
  "conflictsWith tz a [] = []"
| "conflictsWith tz a (b # bs) =
     (if timeOverlap tz a b then mkConflict a b # conflictsWith tz a bs
      else conflictsWith tz a bs)"

fun checkTimeConflicts :: "timeZone \<Rightarrow> candidate list \<Rightarrow> conflict list" where
  "checkTimeConflicts tz [] = []"
| "checkTimeConflicts tz (a # rest) = conflictsWith tz a rest @ checkTimeConflicts tz rest"

text \<open>
  A candidate on 23 July 2025 (a date of that day, Japan Standard Time) from
  \<open>sh:sm\<close> to \<open>eh:em\<close>, for the examples.
\<close>

definition exampleCandidate :: "int \<Rightarrow> int \<Rightarrow> int \<Rightarrow> int \<Rightarrow> int \<Rightarrow> candidate" where
  "exampleCandidate i sh sm eh em =
     \<lparr>id_c = i, date_c = Some (1753232400000 + i), startHour = sh, startMinute = sm,
      endHour = eh, endMinute = em, isFullDay = False, dayOffset = Some 2\<rparr>"

text \<open>\<open>groupByDate\<close>: a \<open>Map\<close> from date key to candidates, which keeps the order of insertion.\<close>

fun addToGroup :: "jsstring \<Rightarrow> candidate \<Rightarrow> (jsstring \<times> candidate list) list \<Rightarrow> (jsstring \<times> candidate list) list" where
  "addToGroup key c [] = [(key, [c])]"
| "addToGroup key c ((k, g) # groups) =
     (if k = key then (k, g @ [c]) # groups else (k, g) # addToGroup key c groups)"

definition groupByDate :: "timeZone \<Rightarrow> candidate list \<Rightarrow> (jsstring \<times> candidate list) list" where
  "groupByDate tz candidates =
     foldl (\<lambda>groups c. addToGroup (getDateKey tz (date_c c)) c groups) [] candidates"


text \<open>
  Modelled from the spec: \<open>TextGenerator.mergeContinuousCandidates\<close> (the spec's
  \<open>mergeContiguous\<close>) is called by the application, but its body is not among the
  sources. The spec: group by calendar date; within a date, sort by start time; merge two
  candidates into one when the next candidate's start time is at most the previous
  candidate's end time; the merged range is [min(starts), max(ends)]. The merged candidate
  keeps the other properties of the earlier one.
\<close>

definition mergeTwo :: "candidate \<Rightarrow> candidate \<Rightarrow> candidate" where
  "mergeTwo p n =
     (let s = (if startMinutes p \<le> startMinutes n then p else n);
          e = (if endMinutes n \<le> endMinutes p then p else n)
      in p\<lparr>startHour := startHour s, startMinute := startMinute s,
            endHour := endHour e, endMinute := endMinute e\<rparr>)"

fun mergeSorted :: "candidate list \<Rightarrow> candidate list" where
  "mergeSorted [] = []"
| "mergeSorted [c] = [c]"
| "mergeSorted (p # n # rest) =
     (if startMinutes n \<le> endMinutes p then mergeSorted (mergeTwo p n # rest)
      else p # mergeSorted (n # rest))"

definition startsBefore :: "candidate \<Rightarrow> candidate \<Rightarrow> bool" where
  "startsBefore a b \<longleftrightarrow> startMinutes a < startMinutes b"

definition mergeContiguous :: "timeZone \<Rightarrow> candidate list \<Rightarrow> candidate list" where
  "mergeContiguous tz candidates =
     concat (map (\<lambda>(key, g). mergeSorted (sortBy startsBefore g)) (groupByDate tz candidates))"

section \<open>ScheduleApp: adding a candidate from a drag selection\<close>

record selection = "int time" +
  day :: int

text \<open>
  The state of the application that \<open>addCandidate\<close> reads and writes: the scheduler's
  \<open>currentWeek\<close> and \<open>timeRange\<close>, the candidates and the two ends of the selection. The
  updates of the page (\<open>updateCandidatesList\<close>, \<open>updateOutputText\<close>,
  \<open>markSelectedCells\<close>) do not change this state.
\<close>

record scheduleApp =
  currentWeek :: Date
  timeRange :: timeRange
  selectedCandidates :: "candidate list"
  isSelecting :: bool
  selectionStart :: "selection option"
  selectionEnd :: "selection option"

text \<open>
  The candidate built by \<open>addCandidate\<close>; \<open>now\<close> is \<open>Date.now()\<close>. An index outside the
  seven week dates reads \<open>undefined\<close>, of which \<open>new Date\<close> makes an invalid date.
\<close>

definition draggedCandidate :: "timeZone \<Rightarrow> int \<Rightarrow> scheduleApp \<Rightarrow> selection \<Rightarrow> selection \<Rightarrow> candidate" where
  "draggedCandidate tz now app s e =
     (let startTime = hour s * 60 + minute s;
          endTime = hour e * 60 + minute e;
          minTime = min startTime endTime;
          maxTime = (if startTime = endTime then minTime + 15 else max startTime endTime + 15);
          weekDates = getWeekDates tz (currentWeek app);
          selectedDate = (if 0 \<le> day s \<and> day s < 7 then weekDates ! nat (day s) else None)
      in \<lparr>id_c = now, date_c = selectedDate,
          startHour = minTime div 60, startMinute = minTime smod 60,
          endHour = maxTime div 60, endMinute = maxTime smod 60,
          isFullDay = False, dayOffset = Some (day s)\<rparr>)"

definition addCandidate :: "timeZone \<Rightarrow> int \<Rightarrow> scheduleApp \<Rightarrow> scheduleApp" where
  "addCandidate tz now app =
     (case (selectionStart app, selectionEnd app) of
        (Some s, Some e) \<Rightarrow>
          app\<lparr>selectedCandidates :=
                 sortCandidates (selectedCandidates app @ [draggedCandidate tz now app s e]),
              selectionStart := None, selectionEnd := None\<rparr>
      | _ \<Rightarrow> app)"

section \<open>HolidayFetcher: parsing the holiday CSV\<close>

text \<open>White space as \<open>trim\<close> and \<open>parseInt\<close> strip it: the white-space and line-terminator code units.\<close>

definition isWhiteSpace :: "nat \<Rightarrow> bool" where
  "isWhiteSpace c \<longleftrightarrow>
     c \<in> set [9, 10, 11, 12, 13, 32, 160, 5760, 8232, 8233, 8239, 8287, 12288, 65279]
     \<or> (8192 \<le> c \<and> c \<le> 8202)"

definition trim :: "jsstring \<Rightarrow> jsstring" where
  "trim s = rev (dropWhile isWhiteSpace (rev (dropWhile isWhiteSpace s)))"

definition digitVal :: "nat \<Rightarrow> nat" where
  "digitVal c =
     (if 48 \<le> c \<and> c \<le> 57 then c - 48
      else if 97 \<le> c \<and> c \<le> 122 then c - 87
      else if 65 \<le> c \<and> c \<le> 90 then c - 55
      else 36)"

text \<open>
  \<open>parseInt(s)\<close> without a radix: leading white space, a sign, the prefix \<open>0x\<close> for
  radix 16, then the longest run of digits; \<open>NaN\<close> when there is none. The value is
  the exact integer (JavaScript rounds it beyond \<open>2^53\<close>, far outside the years, months
  and days of a date).
\<close>

definition parseInt :: "jsstring \<Rightarrow> int option" where
  "parseInt s =
     (let s0 = dropWhile isWhiteSpace s;
          sign = (if take 1 s0 = js ''-'' then - 1 else 1);
          s1 = (if take 1 s0 = js ''-'' \<or> take 1 s0 = js ''+'' then drop 1 s0 else s0);
          hex = (take 2 s1 = js ''0x'' \<or> take 2 s1 = js ''0X'');
          r = (if hex then 16 else 10);
          s2 = (if hex then drop 2 s1 else s1);
          z = takeWhile (\<lambda>c. digitVal c < r) s2
      in if z = [] then None
         else Some (sign * int (foldl (\<lambda>acc c. acc * r + digitVal c) 0 z)))"

text \<open>\<open>a !== b\<close> on two numbers: \<open>NaN\<close> differs from everything, itself included.\<close>

definition strictNe :: "int option \<Rightarrow> int option \<Rightarrow> bool" where
  "strictNe a b = (case (a, b) of (Some x, Some y) \<Rightarrow> x \<noteq> y | _ \<Rightarrow> True)"

text \<open>
  The body of the loop of \<open>parseCSV\<close> on one line: \<open>Inr None\<close> is \<open>continue\<close>,
  \<open>Inr (Some (year, entry))\<close> is the entry pushed on \<open>holidays[year]\<close>, \<open>Inl\<close> an
  exception. \<open>[dateStr, nameStr] = line.split(',')\<close> takes the first two pieces, the
  second being \<open>undefined\<close> when there is one piece only.
\<close>

definition parseRow :: "timeZone \<Rightarrow> int \<Rightarrow> jsstring \<Rightarrow> jsError + (int \<times> holidayEntry) option" where
  "parseRow tz currentYear rawLine =
     (let line = trim rawLine
      in if line = [] then Inr None
         else
           let pieces = splitOn 44 line;
               dateStr = hd pieces;
               nameStr = (case tl pieces of [] \<Rightarrow> None | n # _ \<Rightarrow> Some n)
           in if dateStr = [] \<or> nameStr = None \<or> nameStr = Some [] then Inr None
              else
                let dateParts = splitOn 47 (trim dateStr)
                in if length dateParts \<noteq> 3 then Inr None
                   else
                     let year = parseInt (dateParts ! 0);
                         month = parseInt (dateParts ! 1);
                         day = parseInt (dateParts ! 2)
                     in if (case year of Some y \<Rightarrow> y < currentYear | None \<Rightarrow> False) then Inr None
                        else
                          let dateObj = newDate3 tz year (map_option (\<lambda>m. m - 1) month) day
                          in if strictNe (getFullYear tz dateObj) year
                                \<or> strictNe (getMonth tz dateObj) (map_option (\<lambda>m. m - 1) month)
                                \<or> strictNe (getDate tz dateObj) day
                             then Inr None
                             else
                               (case (isoDateOf dateObj, year, nameStr) of
                                  (Inl err, _, _) \<Rightarrow> Inl err
                                | (Inr isoDateStr, Some y, Some n) \<Rightarrow>
                                    Inr (Some (y, \<lparr>date = isoDateStr,
                                                    name = trim (filter (\<lambda>c. c \<noteq> 34) n)\<rparr>))
                                | _ \<Rightarrow> Inr None))"

text \<open>
  A genuine calendar date: a month from 1 to 12 and a day from 1 to the length of that
  month in that year.
\<close>

definition daysInMonth :: "int \<Rightarrow> int \<Rightarrow> int" where
  "daysInMonth y m =
     (if m = 2 then 28 + leapDays y else if m = 4 \<or> m = 6 \<or> m = 9 \<or> m = 11 then 30 else 31)"

definition validDate :: "int \<Rightarrow> int \<Rightarrow> int \<Rightarrow> bool" where
  "validDate y m d \<longleftrightarrow> 1 \<le> m \<and> m \<le> 12 \<and> 1 \<le> d \<and> d \<le> daysInMonth y m"

text \<open>The entries that the rows of \<open>lines\<close> give for the year \<open>y\<close>, in the order of the rows.\<close>

definition retainedEntries :: "timeZone \<Rightarrow> int \<Rightarrow> jsstring list \<Rightarrow> int \<Rightarrow> holidayEntry list" where
  "retainedEntries tz currentYear lines y =
     concat (map (\<lambda>l. case parseRow tz currentYear l of
                         Inr (Some (y', e)) \<Rightarrow> if y' = y then [e] else []
                       | _ \<Rightarrow> []) lines)"

text \<open>The object \<open>holidays\<close>, from year to the entries pushed so far.\<close>

definition pushEntry :: "int \<Rightarrow> holidayEntry \<Rightarrow> (int \<rightharpoonup> holidayEntry list) \<Rightarrow> (int \<rightharpoonup> holidayEntry list)" where
  "pushEntry year entry holidays =
     holidays(year \<mapsto> (case holidays year of None \<Rightarrow> [entry] | Some es \<Rightarrow> es @ [entry]))"

fun parseLines :: "timeZone \<Rightarrow> int \<Rightarrow> jsstring list \<Rightarrow> (int \<rightharpoonup> holidayEntry list) \<Rightarrow> jsError + (int \<rightharpoonup> holidayEntry list)" where
  "parseLines tz currentYear [] holidays = Inr holidays"
| "parseLines tz currentYear (l # ls) holidays =
     (case parseRow tz currentYear l of
        Inl err \<Rightarrow> Inl err
      | Inr None \<Rightarrow> parseLines tz currentYear ls holidays
      | Inr (Some (year, entry)) \<Rightarrow> parseLines tz currentYear ls (pushEntry year entry holidays))"

text \<open>
  \<open>a.date.localeCompare(b.date) < 0\<close>. The strings compared are ISO dates; on two of
  them of the same shape (digits, with \<open>-\<close> at the same places) the collation orders as
  the code units do, which is the lexicographic order of lists.
\<close>

definition entryBefore :: "holidayEntry \<Rightarrow> holidayEntry \<Rightarrow> bool" where
  "entryBefore a b \<longleftrightarrow> date a < date b"

text \<open>
  \<open>parseCSV\<close>; \<open>currentYear\<close> is \<open>new Date().getFullYear()\<close>. The loop starts at the
  second line, and every year's list is sorted at the end.
\<close>

definition parseCSV :: "timeZone \<Rightarrow> int \<Rightarrow> jsstring \<Rightarrow> jsError + (int \<rightharpoonup> holidayEntry list)" where
  "parseCSV tz currentYear csvText =
     (let lines = splitOn 10 csvText
      in case parseLines tz currentYear (drop 1 lines) Map.empty of
           Inl err \<Rightarrow> Inl err
         | Inr holidays \<Rightarrow> Inr (\<lambda>year. map_option (sortBy entryBefore) (holidays year)))"

section \<open>Zones of fixed offset\<close>

lemma LocalTime_fixed: "LocalTime (fixedOffset tza) t = t + tza"
  by (simp add: LocalTime_def fixedOffset_def)

lemma UTC_fixed: "UTC (fixedOffset tza) t = t - tza"
  by (simp add: UTC_def fixedOffset_def)

section \<open>Properties of the time grid\<close>

lemma smod_nonneg: "0 \<le> a \<Longrightarrow> 0 < b \<Longrightarrow> (a::int) smod b = a mod b"
  by (simp add: signed_modulo_int_def sgn_if)

lemma generateTimeSlots_default:
  "generateTimeSlots defaultTimeRange =
     Some (map (\<lambda>i. mkSlot (9 + i div 4) (15 * (i mod 4))) [0..36])"
  by (simp add: generateTimeSlots_def defaultTimeRange_def hourLoop.simps minuteLoop.simps upto.simps)

text \<open>
  Claim C5. With the configuration 9 to 18 by 15 minutes, \<open>generateTimeSlots\<close> returns, in
  order, the 37 slots 9:00, 9:15, ..., 17:45, 18:00: every slot is at most 18:00, the last one
  is 18:00, and \<open>isHourMark\<close> is set exactly on the slots with minute 0, which are
  9:00, 10:00, ..., 18:00.
\<close>

theorem generateTimeSlots_default_grid:
  "\<exists>slots. generateTimeSlots defaultTimeRange = Some slots
     \<and> map (\<lambda>s. (hour s, minute s)) slots = map (\<lambda>i. (9 + i div 4, 15 * (i mod 4))) [0..36]
     \<and> map (\<lambda>s. hour s * 60 + minute s) slots = map (\<lambda>i. 9 * 60 + 15 * i) [0..36]
     \<and> list_all (\<lambda>s. hour s * 60 + minute s \<le> 18 * 60) slots
     \<and> (hour (last slots), minute (last slots)) = (18, 0)
     \<and> list_all (\<lambda>s. isHourMark s = (minute s = 0)) slots
     \<and> map (\<lambda>s. (hour s, minute s)) (filter isHourMark slots) = map (\<lambda>h. (h, 0)) [9..18]"
  unfolding generateTimeSlots_default
  by (simp add: mkSlot_def upto.simps)











section \<open>Facts about the calendar\<close>

lemma div_succ:
  fixes a k :: int
  assumes k: "0 < k"
  shows "(a + 1) div k = a div k + (if (a + 1) mod k = 0 then 1 else 0)"
proof -
  define q where "q = a div k"
  define r where "r = a mod k"
  have a: "a = k * q + r" and r: "0 \<le> r" "r < k"
    using k by (simp_all add: q_def r_def)
  show ?thesis
  proof (cases "r = k - 1")
    case True
    then have e: "a + 1 = k * (q + 1) + 0" using a by (simp add: algebra_simps)
    have "(a + 1) div k = q + 1" by (rule int_div_pos_eq [OF e]) (use k in auto)
    moreover have "(a + 1) mod k = 0" by (rule int_mod_pos_eq [OF e]) (use k in auto)
    ultimately show ?thesis by (simp add: q_def)
  next
    case False
    then have r1: "0 \<le> r + 1" "r + 1 < k" using r by auto
    have e: "a + 1 = k * q + (r + 1)" using a by simp
    have "(a + 1) div k = q" by (rule int_div_pos_eq [OF e r1])
    moreover have "(a + 1) mod k = r + 1" by (rule int_mod_pos_eq [OF e r1])
    ultimately show ?thesis using r by (simp add: q_def)
  qed
qed

lemma mod_sub_mult: "((a::int) - k * c) mod k = a mod k"
proof -
  have "a - k * c = a + k * (- c)" by simp
  then show ?thesis by (simp only: mod_mult_self2)
qed

lemma mod100_mod4: "(y::int) mod 100 = 0 \<Longrightarrow> y mod 4 = 0"
proof -
  assume "y mod 100 = 0"
  then have "100 dvd y" by (simp add: mod_eq_0_iff_dvd)
  moreover have "(4::int) dvd 100" by simp
  ultimately have "4 dvd y" by (rule dvd_trans [rotated])
  then show ?thesis by (simp add: mod_eq_0_iff_dvd)
qed

lemma mod400_mod100: "(y::int) mod 400 = 0 \<Longrightarrow> y mod 100 = 0"
proof -
  assume "y mod 400 = 0"
  then have "400 dvd y" by (simp add: mod_eq_0_iff_dvd)
  moreover have "(100::int) dvd 400" by simp
  ultimately have "100 dvd y" by (rule dvd_trans [rotated])
  then show ?thesis by (simp add: mod_eq_0_iff_dvd)
qed

lemma step4: "((y::int) + 1 - 1969) div 4 = (y - 1969) div 4 + (if y mod 4 = 0 then 1 else 0)"
proof -
  have "(y - 1969 + 1) mod 4 = y mod 4"
    using mod_sub_mult [of y 4 492] by (simp add: algebra_simps)
  moreover have "y + 1 - 1969 = y - 1969 + 1" by simp
  ultimately show ?thesis using div_succ [of 4 "y - 1969"] by simp
qed

lemma step100: "((y::int) + 1 - 1901) div 100 = (y - 1901) div 100 + (if y mod 100 = 0 then 1 else 0)"
proof -
  have "(y - 1901 + 1) mod 100 = y mod 100"
    using mod_sub_mult [of y 100 19] by (simp add: algebra_simps)
  moreover have "y + 1 - 1901 = y - 1901 + 1" by simp
  ultimately show ?thesis using div_succ [of 100 "y - 1901"] by simp
qed

lemma step400: "((y::int) + 1 - 1601) div 400 = (y - 1601) div 400 + (if y mod 400 = 0 then 1 else 0)"
proof -
  have "(y - 1601 + 1) mod 400 = y mod 400"
    using mod_sub_mult [of y 400 4] by (simp add: algebra_simps)
  moreover have "y + 1 - 1601 = y - 1601 + 1" by simp
  ultimately show ?thesis using div_succ [of 400 "y - 1601"] by simp
qed

text \<open>A year is as long as \<open>DaysInYear\<close> says.\<close>

lemma DayFromYear_Suc: "DayFromYear (y + 1) = DayFromYear y + DaysInYear y"
proof (cases "y mod 4 = 0")
  case False
  have "y mod 100 \<noteq> 0" using False mod100_mod4 [of y] by auto
  moreover have "y mod 400 \<noteq> 0" using \<open>y mod 100 \<noteq> 0\<close> mod400_mod100 [of y] by auto
  ultimately show ?thesis using False
    unfolding DayFromYear_def DaysInYear_def step4 step100 step400 by simp
next
  case m4: True
  show ?thesis
  proof (cases "y mod 100 = 0")
    case False
    then have "y mod 400 \<noteq> 0" using mod400_mod100 [of y] by auto
    with False m4 show ?thesis
      unfolding DayFromYear_def DaysInYear_def step4 step100 step400 by simp
  next
    case True
    with m4 show ?thesis
      unfolding DayFromYear_def DaysInYear_def step4 step100 step400 by simp
  qed
qed

lemma DayFromYear_bounds:
  "146097 * y - 287811596 \<le> 400 * DayFromYear y"
  "400 * DayFromYear y \<le> 146097 * y - 287810501"
proof -
  define q4 where "q4 = (y - 1969) div 4"
  define r4 where "r4 = (y - 1969) mod 4"
  define q100 where "q100 = (y - 1901) div 100"
  define r100 where "r100 = (y - 1901) mod 100"
  define q400 where "q400 = (y - 1601) div 400"
  define r400 where "r400 = (y - 1601) mod 400"
  have e4: "y - 1969 = 4 * q4 + r4" and b4: "0 \<le> r4" "r4 < 4"
    by (simp_all add: q4_def r4_def)
  have e100: "y - 1901 = 100 * q100 + r100" and b100: "0 \<le> r100" "r100 < 100"
    by (simp_all add: q100_def r100_def)
  have e400: "y - 1601 = 400 * q400 + r400" and b400: "0 \<le> r400" "r400 < 400"
    by (simp_all add: q400_def r400_def)
  have a: "400 * q4 = 100 * y - 196900 - 100 * r4" using e4 by linarith
  have b: "400 * q100 = 4 * y - 7604 - 4 * r100" using e100 by linarith
  have c: "400 * q400 = y - 1601 - r400" using e400 by linarith
  have "400 * DayFromYear y = 146000 * y - 287620000 + 400 * q4 - 400 * q100 + 400 * q400"
    by (simp add: DayFromYear_def q4_def q100_def q400_def algebra_simps)
  also have "\<dots> = 146097 * y - 287810897 - 100 * r4 + 4 * r100 - r400"
    unfolding a b c by (simp add: algebra_simps)
  finally have D: "400 * DayFromYear y = 146097 * y - 287810897 - 100 * r4 + 4 * r100 - r400" .
  show "146097 * y - 287811596 \<le> 400 * DayFromYear y"
    unfolding D using b4 b100 b400 by linarith
  show "400 * DayFromYear y \<le> 146097 * y - 287810501"
    unfolding D using b4 b100 b400 by linarith
qed

lemma DaysInYear_leap:
  "0 < DaysInYear y" "DaysInYear y = 365 + leapDays y" "0 \<le> leapDays y" "leapDays y \<le> 1"
  by (simp_all add: DaysInYear_def leapDays_def)

lemma DayFromYear_mono: "y < z \<Longrightarrow> DayFromYear y < DayFromYear z"
proof -
  assume yz: "y < z"
  show ?thesis
  proof (cases "z = y + 1")
    case True
    then show ?thesis using DayFromYear_Suc [of y] DaysInYear_leap(1) [of y] by simp
  next
    case False
    then have "y + 2 \<le> z" using yz by simp
    then have "146097 * y - 287810501 < 146097 * z - 287811596" by linarith
    then have "400 * DayFromYear y < 400 * DayFromYear z"
      using DayFromYear_bounds(2) [of y] DayFromYear_bounds(1) [of z] by linarith
    then show ?thesis by simp
  qed
qed

lemma DayFromYear_mono_le: "y \<le> z \<Longrightarrow> DayFromYear y \<le> DayFromYear z"
  using DayFromYear_mono [of y z] by (cases "y = z") auto

text \<open>\<open>YearFromDay d\<close> is the year that holds day \<open>d\<close>, and the only one.\<close>

lemma YearFromDay_bounds:
  "DayFromYear (YearFromDay d) \<le> d" "d < DayFromYear (YearFromDay d + 1)"
proof -
  define x where "x = (400 * d) div 146097"
  define r where "r = (400 * d) mod 146097"
  have e: "400 * d = 146097 * x + r" and rb: "0 \<le> r" "r < 146097"
    by (simp_all add: x_def r_def)
  have "400 * DayFromYear (1969 + x) \<le> 146097 * (1969 + x) - 287810501"
    by (rule DayFromYear_bounds(2))
  also have "\<dots> = 146097 * x - 145508" by simp
  finally have lo: "DayFromYear (1969 + x) \<le> d" using e rb by linarith
  have "146097 * (1972 + x) - 287811596 \<le> 400 * DayFromYear (1972 + x)"
    by (rule DayFromYear_bounds(1))
  moreover have "146097 * (1972 + x) - 287811596 = 146097 * x + 291688" by simp
  ultimately have hi: "d < DayFromYear (1972 + x)" using e rb by linarith
  have Y: "YearFromDay d = (if d < DayFromYear (1970 + x) then 1969 + x
         else if DayFromYear (1971 + x) \<le> d then 1971 + x else 1970 + x)"
    by (simp add: YearFromDay_def x_def Let_def algebra_simps)
  show "DayFromYear (YearFromDay d) \<le> d"
    unfolding Y using lo by simp
  have "1971 + x + 1 = 1972 + x" "1969 + x + 1 = 1970 + x" "1970 + x + 1 = 1971 + x" by simp_all
  then show "d < DayFromYear (YearFromDay d + 1)"
    unfolding Y using hi by simp
qed

lemma YearFromDay_unique:
  assumes "DayFromYear y \<le> d" "d < DayFromYear (y + 1)"
  shows "YearFromDay d = y"
proof (rule ccontr)
  assume ne: "YearFromDay d \<noteq> y"
  let ?z = "YearFromDay d"
  show False
  proof (cases "?z < y")
    case True
    then have "DayFromYear (?z + 1) \<le> DayFromYear y"
      by (intro DayFromYear_mono_le) simp
    then show False using YearFromDay_bounds(2) [of d] assms(1) by linarith
  next
    case False
    then have "DayFromYear (y + 1) \<le> DayFromYear ?z"
      using ne by (intro DayFromYear_mono_le) simp
    then show False using YearFromDay_bounds(1) [of d] assms(2) by linarith
  qed
qed

lemma DayWithinYear_range: "0 \<le> DayWithinYear t" "DayWithinYear t < 365 + InLeapYear t"
  using YearFromDay_bounds [of "Day t"] DayFromYear_Suc [of "YearFromTime t"]
    DaysInYear_leap(2) [of "YearFromTime t"]
  by (simp_all add: DayWithinYear_def YearFromTime_def InLeapYear_def)

lemma InLeapYear_range: "0 \<le> InLeapYear t" "InLeapYear t \<le> 1"
  by (simp_all add: InLeapYear_def leapDays_def)

lemma MonthFromTime_range: "0 \<le> MonthFromTime t" "MonthFromTime t \<le> 11"
  by (simp_all add: MonthFromTime_def Let_def)

lemma MonthFromTime_bracket:
  "monthStart (MonthFromTime t) (InLeapYear t) \<le> DayWithinYear t"
  "DayWithinYear t < monthStart (MonthFromTime t + 1) (InLeapYear t)"
  using DayWithinYear_range [of t] InLeapYear_range [of t]
  by (simp_all add: MonthFromTime_def monthStart_def Let_def)

lemma Day_fields:
  "Day t = DayFromYear (YearFromTime t) + monthStart (MonthFromTime t) (InLeapYear t) + DateFromTime t - 1"
  by (simp add: DateFromTime_def DayWithinYear_def)

lemma MakeDay_fields: "MakeDay (YearFromTime t) (MonthFromTime t) n = Day t - DateFromTime t + n"
proof -
  have "MonthFromTime t div 12 = 0" "MonthFromTime t mod 12 = MonthFromTime t"
    using MonthFromTime_range [of t] by simp_all
  then show ?thesis
    by (simp add: MakeDay_def Let_def DateFromTime_def DayWithinYear_def InLeapYear_def)
qed

lemma Day_TimeWithinDay: "Day t * msPerDay + TimeWithinDay t = t"
  by (simp add: Day_def TimeWithinDay_def)

lemma Day_add_days: "Day (t + j * msPerDay) = Day t + j"
  by (simp add: Day_def msPerDay_def)

lemma WeekDay_range: "0 \<le> WeekDay t" "WeekDay t \<le> 6"
  by (simp_all add: WeekDay_def)

section \<open>The week of a date\<close>

text \<open>
  \<open>setDate\<close> moves the local time of a valid date by whole days, reads the result back
  as a time value and clips it.
\<close>

lemma setDate_valid:
  "setDate tz (Some t) (Some n)
     = TimeClip (UTC tz (LocalTime tz t + (n - DateFromTime (LocalTime tz t)) * msPerDay))"
proof -
  let ?lt = "LocalTime tz t"
  have "MakeDate (MakeDay (YearFromTime ?lt) (MonthFromTime ?lt) n) (TimeWithinDay ?lt)
      = Day ?lt * msPerDay + TimeWithinDay ?lt + (n - DateFromTime ?lt) * msPerDay"
    by (simp add: MakeDate_def MakeDay_fields algebra_simps)
  also have "\<dots> = ?lt + (n - DateFromTime ?lt) * msPerDay"
    by (simp only: Day_TimeWithinDay)
  finally show ?thesis
    by (simp add: setDate_def Let_def)
qed

lemma setDate_fixed:
  "setDate (fixedOffset tza) (Some t) (Some n)
     = TimeClip (t + (n - DateFromTime (LocalTime (fixedOffset tza) t)) * msPerDay)"
  by (simp add: setDate_valid UTC_fixed LocalTime_fixed)

lemma getMonday_valid:
  "getMonday tz (Some t)
     = TimeClip (UTC tz (LocalTime tz t - ((WeekDay (LocalTime tz t) + 6) mod 7) * msPerDay))"
proof -
  let ?w = "WeekDay (LocalTime tz t)"
  let ?dd = "DateFromTime (LocalTime tz t)"
  have k: "?dd - ?w + (if ?w = 0 then - 6 else 1) - ?dd = - ((?w + 6) mod 7)"
    using WeekDay_range [of "LocalTime tz t"] by presburger
  have "getMonday tz (Some t) = setDate tz (Some t) (Some (?dd - ?w + (if ?w = 0 then - 6 else 1)))"
    by (simp add: getMonday_def Let_def getDate_def getDay_def)
  also have "\<dots> = TimeClip (UTC tz (LocalTime tz t
                       + (?dd - ?w + (if ?w = 0 then - 6 else 1) - ?dd) * msPerDay))"
    by (rule setDate_valid)
  also have "\<dots> = TimeClip (UTC tz (LocalTime tz t + (- ((?w + 6) mod 7)) * msPerDay))"
    by (simp only: k)
  finally show ?thesis by simp
qed

lemma getMonday_invalid: "getMonday tz None = None"
  by (simp add: getMonday_def getDate_def getDay_def setDate_def)

lemma setDate_week_day:
  "setDate tz (Some m) (map_option (\<lambda>x. x + i) (getDate tz (Some m)))
     = TimeClip (UTC tz (LocalTime tz m + i * msPerDay))"
  by (simp add: getDate_def setDate_valid)

lemma getWeekDates_eq:
  "getWeekDates tz d =
     (case getMonday tz d of
        None \<Rightarrow> [None, None, None, None, None, None, None]
      | Some m \<Rightarrow> map (\<lambda>i. TimeClip (UTC tz (LocalTime tz m + i * msPerDay))) [0, 1, 2, 3, 4, 5, 6])"
proof (cases "getMonday tz d")
  case None
  then show ?thesis by (simp add: getWeekDates_def Let_def setDate_def)
next
  case (Some m)
  then show ?thesis
    unfolding getWeekDates_def Let_def by (simp only: setDate_week_day list.map option.case)
qed

lemma TimeClip_in_range: "- maxTime \<le> t \<Longrightarrow> t \<le> maxTime \<Longrightarrow> TimeClip t = Some t"
  by (simp add: TimeClip_def)

text \<open>
  Claim C4 (as amended). Take a valid date whose week, from its Monday to its Sunday, lies
  within the range of time values, in a host time zone whose offset \<open>c\<close> does not change
  during that week: it is the offset at the date's time of day on each of the seven days.
  Then \<open>getMonday\<close> is the date moved back by \<open>(weekday + 6) mod 7\<close> days,
  \<open>getWeekDates\<close> returns seven dates on seven consecutive calendar days of which the
  first is a Monday, and the given date is one of the seven. (As stated for every date the
  claim fails at the ends of the range and in a week in which the zone skips a day,
  \<open>getWeekDates_range_counterexample\<close>.)
\<close>

theorem getWeekDates_week:
  assumes k: "(WeekDay (LocalTime tz t) + 6) mod 7 = k"
    and lo: "- maxTime \<le> t - k * msPerDay"
    and hi: "t + (6 - k) * msPerDay \<le> maxTime"
    and zone: "\<forall>i \<in> {0..6}. offsetAtUTC tz (t + (i - k) * msPerDay) = c
                 \<and> offsetAtLocal tz (t + c + (i - k) * msPerDay) = c"
  shows "getMonday tz (Some t) = Some (t - k * msPerDay)
     \<and> getWeekDates tz (Some t) = map (\<lambda>i. Some (t + (i - k) * msPerDay)) [0, 1, 2, 3, 4, 5, 6]
     \<and> map (calendarDay tz) (getWeekDates tz (Some t))
          = map (\<lambda>i. Some (Day (LocalTime tz t) - k + i)) [0, 1, 2, 3, 4, 5, 6]
     \<and> getDay tz (hd (getWeekDates tz (Some t))) = Some 1
     \<and> 0 \<le> k \<and> k \<le> 6
     \<and> getWeekDates tz (Some t) ! nat k = Some t"
proof -
  have kr: "0 \<le> k" "k \<le> 6" using k by auto
  have zu: "offsetAtUTC tz (t + (i - k) * msPerDay) = c"
    and zl: "offsetAtLocal tz (t + c + (i - k) * msPerDay) = c" if "0 \<le> i" "i \<le> 6" for i
    using zone that by simp_all
  have "offsetAtUTC tz (t + (k - k) * msPerDay) = c" using kr by (intro zu)
  then have c0: "offsetAtUTC tz t = c" by simp
  have lt: "LocalTime tz (t + (i - k) * msPerDay) = t + c + (i - k) * msPerDay"
    if "0 \<le> i" "i \<le> 6" for i
    using zu [OF that] by (simp add: LocalTime_def)
  have ut: "UTC tz (t + c + (i - k) * msPerDay) = t + (i - k) * msPerDay"
    if "0 \<le> i" "i \<le> 6" for i
    using zl [OF that] by (simp add: UTC_def)
  have l0: "LocalTime tz t = t + c" using c0 by (simp add: LocalTime_def)
  have "UTC tz (LocalTime tz t - k * msPerDay) = UTC tz (t + c + (0 - k) * msPerDay)"
    unfolding l0 by (simp add: algebra_simps)
  also have "\<dots> = t + (0 - k) * msPerDay" by (rule ut) simp_all
  finally have um: "UTC tz (LocalTime tz t - k * msPerDay) = t - k * msPerDay" by simp
  have m: "getMonday tz (Some t) = Some (t - k * msPerDay)"
    unfolding getMonday_valid k um
    using lo hi kr by (intro TimeClip_in_range) (simp_all add: msPerDay_def)
  have day: "TimeClip (UTC tz (LocalTime tz (t - k * msPerDay) + i * msPerDay))
               = Some (t + (i - k) * msPerDay)"
    if i: "0 \<le> i" "i \<le> 6" for i
  proof -
    have "LocalTime tz (t - k * msPerDay) = LocalTime tz (t + (0 - k) * msPerDay)" by simp
    also have "\<dots> = t + c + (0 - k) * msPerDay" by (rule lt) simp_all
    finally have "LocalTime tz (t - k * msPerDay) + i * msPerDay = t + c + (i - k) * msPerDay"
      by (simp add: algebra_simps)
    then have e: "UTC tz (LocalTime tz (t - k * msPerDay) + i * msPerDay) = t + (i - k) * msPerDay"
      using ut [OF i] by simp
    show ?thesis unfolding e
      using lo hi kr i by (intro TimeClip_in_range) (simp_all add: msPerDay_def)
  qed
  have w: "getWeekDates tz (Some t) = map (\<lambda>i. Some (t + (i - k) * msPerDay)) [0, 1, 2, 3, 4, 5, 6]"
  proof -
    have c: "TimeClip (UTC tz (LocalTime tz (t - k * msPerDay) + 0 * msPerDay)) = Some (t + (0 - k) * msPerDay)"
      "TimeClip (UTC tz (LocalTime tz (t - k * msPerDay) + 1 * msPerDay)) = Some (t + (1 - k) * msPerDay)"
      "TimeClip (UTC tz (LocalTime tz (t - k * msPerDay) + 2 * msPerDay)) = Some (t + (2 - k) * msPerDay)"
      "TimeClip (UTC tz (LocalTime tz (t - k * msPerDay) + 3 * msPerDay)) = Some (t + (3 - k) * msPerDay)"
      "TimeClip (UTC tz (LocalTime tz (t - k * msPerDay) + 4 * msPerDay)) = Some (t + (4 - k) * msPerDay)"
      "TimeClip (UTC tz (LocalTime tz (t - k * msPerDay) + 5 * msPerDay)) = Some (t + (5 - k) * msPerDay)"
      "TimeClip (UTC tz (LocalTime tz (t - k * msPerDay) + 6 * msPerDay)) = Some (t + (6 - k) * msPerDay)"
      by (rule day, simp, simp)+
    show ?thesis
      unfolding getWeekDates_eq m option.case list.map c by (rule refl)
  qed
  have d: "Day (LocalTime tz (t + (i - k) * msPerDay)) = Day (LocalTime tz t) - k + i"
    if i: "0 \<le> i" "i \<le> 6" for i
  proof -
    have "LocalTime tz (t + (i - k) * msPerDay) = LocalTime tz t + (i - k) * msPerDay"
      unfolding lt [OF i] l0 by simp
    then show ?thesis by (simp add: Day_add_days)
  qed
  have ds: "Day (LocalTime tz (t + (0 - k) * msPerDay)) = Day (LocalTime tz t) - k + 0"
    "Day (LocalTime tz (t + (1 - k) * msPerDay)) = Day (LocalTime tz t) - k + 1"
    "Day (LocalTime tz (t + (2 - k) * msPerDay)) = Day (LocalTime tz t) - k + 2"
    "Day (LocalTime tz (t + (3 - k) * msPerDay)) = Day (LocalTime tz t) - k + 3"
    "Day (LocalTime tz (t + (4 - k) * msPerDay)) = Day (LocalTime tz t) - k + 4"
    "Day (LocalTime tz (t + (5 - k) * msPerDay)) = Day (LocalTime tz t) - k + 5"
    "Day (LocalTime tz (t + (6 - k) * msPerDay)) = Day (LocalTime tz t) - k + 6"
    by (rule d, simp, simp)+
  have c: "map (calendarDay tz) (getWeekDates tz (Some t))
          = map (\<lambda>i. Some (Day (LocalTime tz t) - k + i)) [0, 1, 2, 3, 4, 5, 6]"
    unfolding w list.map calendarDay_def option.map ds by (rule refl)
  have "(Day (LocalTime tz t) - k + 0 + 4) mod 7 = 1"
    unfolding k [symmetric] WeekDay_def by presburger
  then have g: "getDay tz (hd (getWeekDates tz (Some t))) = Some 1"
    unfolding w list.map list.sel getDay_def option.map WeekDay_def by (simp only: ds)
  have "k = 0 \<or> k = 1 \<or> k = 2 \<or> k = 3 \<or> k = 4 \<or> k = 5 \<or> k = 6"
    using kr by auto
  then have n: "getWeekDates tz (Some t) ! nat k = Some t"
    unfolding w by (elim disjE) (simp_all add: nat_numeral)
  show ?thesis using m w c g kr n by simp
qed

text \<open>
  Wednesday 23 July 2025 in Japan, a zone of constant offset: the week runs from Monday
  the 21st to Sunday the 27th.
\<close>

theorem getWeekDates_week_witness:
  "(WeekDay (LocalTime (fixedOffset 32400000) 1753232400000) + 6) mod 7 = 2
   \<and> - maxTime \<le> 1753232400000 - 2 * msPerDay
   \<and> 1753232400000 + (6 - 2) * msPerDay \<le> maxTime
   \<and> offsetAtUTC (fixedOffset 32400000) 1753232400000 = 32400000
   \<and> getMonday (fixedOffset 32400000) (Some 1753232400000) = Some 1753059600000
   \<and> getWeekDates (fixedOffset 32400000) (Some 1753232400000)
        = [Some 1753059600000, Some 1753146000000, Some 1753232400000, Some 1753318800000,
           Some 1753405200000, Some 1753491600000, Some 1753578000000]
   \<and> map (calendarDay (fixedOffset 32400000)) (getWeekDates (fixedOffset 32400000) (Some 1753232400000))
        = [Some 20290, Some 20291, Some 20292, Some 20293, Some 20294, Some 20295, Some 20296]
   \<and> getDay (fixedOffset 32400000) (hd (getWeekDates (fixedOffset 32400000) (Some 1753232400000))) = Some 1"
proof -
  have k: "(WeekDay (LocalTime (fixedOffset 32400000) 1753232400000) + 6) mod 7 = 2"
    by (simp add: WeekDay_def LocalTime_fixed Day_def msPerDay_def)
  have lo: "- maxTime \<le> 1753232400000 - 2 * msPerDay"
    and hi: "1753232400000 + (6 - 2) * msPerDay \<le> maxTime"
    by (simp_all add: maxTime_def msPerDay_def)
  have z: "\<forall>i \<in> {0..6}. offsetAtUTC (fixedOffset 32400000) (1753232400000 + (i - 2) * msPerDay) = 32400000
         \<and> offsetAtLocal (fixedOffset 32400000) (1753232400000 + 32400000 + (i - 2) * msPerDay) = 32400000"
    by (simp add: fixedOffset_def)
  have o: "offsetAtUTC (fixedOffset 32400000) 1753232400000 = 32400000"
    by (simp add: fixedOffset_def)
  have d: "Day (LocalTime (fixedOffset 32400000) 1753232400000) = 20292"
    by (simp add: LocalTime_fixed Day_def msPerDay_def)
  have e: "getMonday (fixedOffset 32400000) (Some 1753232400000) = Some 1753059600000
     \<and> getWeekDates (fixedOffset 32400000) (Some 1753232400000)
        = [Some 1753059600000, Some 1753146000000, Some 1753232400000, Some 1753318800000,
           Some 1753405200000, Some 1753491600000, Some 1753578000000]
     \<and> map (calendarDay (fixedOffset 32400000)) (getWeekDates (fixedOffset 32400000) (Some 1753232400000))
        = [Some 20290, Some 20291, Some 20292, Some 20293, Some 20294, Some 20295, Some 20296]
     \<and> getDay (fixedOffset 32400000) (hd (getWeekDates (fixedOffset 32400000) (Some 1753232400000))) = Some 1
     \<and> (0::int) \<le> 2 \<and> (2::int) \<le> 6
     \<and> getWeekDates (fixedOffset 32400000) (Some 1753232400000) ! nat 2 = Some 1753232400000"
    using getWeekDates_week [OF k lo hi z] unfolding d
    by (simp add: msPerDay_def calendarDay_def getDay_def WeekDay_def LocalTime_fixed Day_def)
  show ?thesis using k lo hi o e by blast
qed

text \<open>
  The last representable date, a Saturday, has no representable Sunday after it, and the
  first one, a Tuesday, no Monday before it: the week then holds invalid dates. And in
  Samoa the week of Wednesday 28 December 2011 (here at noon) has no Friday the 30th, the
  day the zone skipped: \<open>setDate(30)\<close> gives Saturday the 31st, which is returned twice.
\<close>

theorem getWeekDates_range_counterexample:
  "TimeClip maxTime = Some maxTime
   \<and> getWeekDates (fixedOffset 0) (Some maxTime) ! 6 = None
   \<and> getDay (fixedOffset 0) (hd (getWeekDates (fixedOffset 0) (Some (- maxTime)))) = None
   \<and> TimeClip 1325109600000 = Some 1325109600000
   \<and> calendarDay apiaZone (Some 1325109600000) = Some 15336
   \<and> map (calendarDay apiaZone) (getWeekDates apiaZone (Some 1325109600000))
       = [Some 15334, Some 15335, Some 15336, Some 15337, Some 15339, Some 15339, Some 15340]"
  by (simp add: getWeekDates_eq getMonday_valid apiaZone_def fixedOffset_def LocalTime_def UTC_def
      TimeClip_def maxTime_def msPerDay_def WeekDay_def Day_def calendarDay_def getDay_def)

section \<open>Decimal strings and date keys\<close>

lemma natToString_nonempty: "natToString n \<noteq> []"
  by (subst natToString.simps) simp

lemma natToString_digits: "c \<in> set (natToString n) \<Longrightarrow> 48 \<le> c \<and> c \<le> 57"
proof (induction n rule: natToString.induct)
  case (1 n)
  show ?case
  proof (cases "n < 10")
    case True
    then show ?thesis using "1.prems" by (subst (asm) natToString.simps) (simp add: digitChar_def)
  next
    case False
    then have "c \<in> set (natToString (n div 10)) \<or> c = digitChar (n mod 10)"
      using "1.prems" by (subst (asm) natToString.simps) auto
    then show ?thesis
    proof
      assume "c \<in> set (natToString (n div 10))"
      then show ?thesis using "1.IH" False by simp
    next
      assume "c = digitChar (n mod 10)"
      moreover have "n mod 10 < 10" by simp
      ultimately show ?thesis unfolding digitChar_def by linarith
    qed
  qed
qed

lemma natToString_inj: "natToString m = natToString n \<Longrightarrow> m = n"
proof (induction m arbitrary: n rule: natToString.induct)
  case (1 m)
  show ?case
  proof (cases "m < 10")
    case m: True
    show ?thesis
    proof (cases "n < 10")
      case True
      with m "1.prems" show ?thesis
        by (simp add: natToString.simps [of m] natToString.simps [of n] digitChar_def)
    next
      case False
      with m "1.prems" have "[digitChar m] = natToString (n div 10) @ [digitChar (n mod 10)]"
        by (simp add: natToString.simps [of m] natToString.simps [of n])
      then have "natToString (n div 10) = []" by simp
      then show ?thesis using natToString_nonempty by blast
    qed
  next
    case m: False
    show ?thesis
    proof (cases "n < 10")
      case True
      with m "1.prems" have "natToString (m div 10) @ [digitChar (m mod 10)] = [digitChar n]"
        by (simp add: natToString.simps [of m] natToString.simps [of n])
      then have "natToString (m div 10) = []" by simp
      then show ?thesis using natToString_nonempty by blast
    next
      case False
      with m "1.prems" have e: "natToString (m div 10) = natToString (n div 10)"
          "digitChar (m mod 10) = digitChar (n mod 10)"
        by (simp_all add: natToString.simps [of m] natToString.simps [of n])
      from e(1) have "m div 10 = n div 10" using "1.IH" m by simp
      moreover from e(2) have "m mod 10 = n mod 10" by (simp add: digitChar_def)
      ultimately show ?thesis by (metis div_mult_mod_eq)
    qed
  qed
qed

lemma numberToString_inj: "numberToString i = numberToString j \<Longrightarrow> i = j"
proof -
  assume e: "numberToString i = numberToString j"
  have hd: "hd (natToString n) \<noteq> 45" for n
    using natToString_digits [of "hd (natToString n)" n] natToString_nonempty [of n]
    by (cases "natToString n") auto
  show ?thesis
  proof (cases "i < 0")
    case i: True
    show ?thesis
    proof (cases "j < 0")
      case True
      with i e have "natToString (nat (- i)) = natToString (nat (- j))"
        by (simp add: numberToString_def)
      then have "nat (- i) = nat (- j)" by (rule natToString_inj)
      with i True show ?thesis by simp
    next
      case False
      with i e have "45 # natToString (nat (- i)) = natToString (nat j)"
        by (simp add: numberToString_def)
      then have "hd (natToString (nat j)) = 45" by (metis list.sel(1))
      then show ?thesis using hd by blast
    qed
  next
    case i: False
    show ?thesis
    proof (cases "j < 0")
      case True
      with i e have "natToString (nat i) = 45 # natToString (nat (- j))"
        by (simp add: numberToString_def)
      then have "hd (natToString (nat i)) = 45" by (metis list.sel(1))
      then show ?thesis using hd by blast
    next
      case False
      with i e have "natToString (nat i) = natToString (nat j)"
        by (simp add: numberToString_def)
      then have "nat i = nat j" by (rule natToString_inj)
      with i False show ?thesis by simp
    qed
  qed
qed

lemma split_unique:
  "c \<notin> set a \<Longrightarrow> c \<notin> set a' \<Longrightarrow> a @ c # b = a' @ c # b' \<Longrightarrow> a = a' \<and> b = b'"
proof (induction a arbitrary: a')
  case Nil
  then show ?case by (cases a') auto
next
  case (Cons x a)
  then show ?case by (cases a') auto
qed

lemma monthDayKey_inj:
  assumes "0 \<le> m" "0 \<le> d" "0 \<le> m'" "0 \<le> d'"
  shows "numberToString m @ js ''-'' @ numberToString d = numberToString m' @ js ''-'' @ numberToString d'
     \<longleftrightarrow> m = m' \<and> d = d'"
proof
  assume e: "numberToString m @ js ''-'' @ numberToString d = numberToString m' @ js ''-'' @ numberToString d'"
  have n: "45 \<notin> set (numberToString i)" if "0 \<le> i" for i
    using that natToString_digits [of 45 "nat i"] by (auto simp: numberToString_def)
  have "numberToString m = numberToString m' \<and> numberToString d = numberToString d'"
    using e n [OF assms(1)] n [OF assms(3)]
    by (intro split_unique [of 45]) (simp_all add: js_def)
  then show "m = m' \<and> d = d'" using numberToString_inj by blast
qed simp


section \<open>The holiday check before initialisation\<close>

lemma DateFromTime_pos: "1 \<le> DateFromTime t"
  using MonthFromTime_bracket(1) [of t] by (simp add: DateFromTime_def)

lemmas calendar_eval = YearFromTime_def YearFromDay_def DayFromYear_def Day_def msPerDay_def
  MonthFromTime_def DateFromTime_def DayWithinYear_def InLeapYear_def leapDays_def DaysInYear_def
  monthStart_def WeekDay_def LocalTime_fixed Let_def

lemma basicHolidays_keys:
  "[js ''1-1'', js ''5-3'', js ''5-4'', js ''5-5'', js ''11-3'', js ''11-23'']
     = map (\<lambda>(m, d). numberToString m @ js ''-'' @ numberToString d)
         [(1, 1), (5, 3), (5, 4), (5, 5), (11, 3), (11, 23)]"
  by (simp add: js_def numberToString_def natToString.simps digitChar_def)

lemma fallbackHolidayCheck_valid:
  "fallbackHolidayCheck tz (Some t) \<longleftrightarrow>
     (MonthFromTime (LocalTime tz t) + 1, DateFromTime (LocalTime tz t))
       \<in> set [(1, 1), (5, 3), (5, 4), (5, 5), (11, 3), (11, 23)]"
proof -
  let ?m = "MonthFromTime (LocalTime tz t) + 1"
  let ?d = "DateFromTime (LocalTime tz t)"
  have m: "0 \<le> ?m" using MonthFromTime_range(1) [of "LocalTime tz t"] by simp
  have d: "0 \<le> ?d" using DateFromTime_pos [of "LocalTime tz t"] by simp
  have "fallbackHolidayCheck tz (Some t) \<longleftrightarrow>
      numberToString ?m @ js ''-'' @ numberToString ?d
        \<in> set (map (\<lambda>(m, d). numberToString m @ js ''-'' @ numberToString d)
         [(1, 1), (5, 3), (5, 4), (5, 5), (11, 3), (11, 23)])"
    unfolding basicHolidays_keys [symmetric]
    by (simp add: fallbackHolidayCheck_def getMonth_def getDate_def numToString_def)
  also have "\<dots> \<longleftrightarrow> (?m, ?d) \<in> set [(1, 1), (5, 3), (5, 4), (5, 5), (11, 3), (11, 23)]"
    by (simp add: monthDayKey_inj [OF m d])
  finally show ?thesis .
qed

lemma fallbackHolidayCheck_invalid: "\<not> fallbackHolidayCheck tz None"
  by (simp add: fallbackHolidayCheck_def getMonth_def getDate_def numToString_def js_def)

text \<open>
  Claim C2 (as amended). Before the holiday service is initialised,
  \<open>HolidayService.isHoliday\<close> writes its warning and returns false for every date, and
  \<open>Scheduler.isHoliday\<close> (also when there is no service at all) writes its warning and
  returns the result of its own check of six basic holidays: true exactly on 1/1, 5/3, 5/4,
  5/5, 11/3 and 11/23, false on every other date and on an invalid date. Neither throws.
  (As stated the claim fails for \<open>Scheduler.isHoliday\<close>,
  \<open>schedulerIsHoliday_counterexample\<close>.)
\<close>

theorem isHoliday_before_initialization:
  "(\<not> isInitialized svc \<longrightarrow> isHoliday tz svc d = ([WarnServiceNotInitialized], Inr False))
   \<and> (\<not> isInitialized svc \<longrightarrow>
        schedulerIsHoliday tz (Some svc) d
          = ([WarnSchedulerBasicHolidays], Inr (fallbackHolidayCheck tz d)))
   \<and> schedulerIsHoliday tz None d = ([WarnSchedulerBasicHolidays], Inr (fallbackHolidayCheck tz d))
   \<and> fallbackHolidayCheck tz None = False
   \<and> fallbackHolidayCheck tz (Some t)
        = ((MonthFromTime (LocalTime tz t) + 1, DateFromTime (LocalTime tz t))
             \<in> set [(1, 1), (5, 3), (5, 4), (5, 5), (11, 3), (11, 23)])"
  using fallbackHolidayCheck_valid [of tz t] fallbackHolidayCheck_invalid [of tz]
  by (simp add: isHoliday_def schedulerIsHoliday_def)

lemma newYear_2025_fields:
  "MonthFromTime (LocalTime (fixedOffset 32400000) 1735657200000) + 1 = 1"
  "DateFromTime (LocalTime (fixedOffset 32400000) 1735657200000) = 1"
  by (simp_all add: calendar_eval)

theorem isHoliday_before_initialization_witness:
  "\<not> isInitialized newHolidayService
   \<and> isHoliday (fixedOffset 32400000) newHolidayService (Some 1735657200000)
        = ([WarnServiceNotInitialized], Inr False)
   \<and> schedulerIsHoliday (fixedOffset 32400000) (Some newHolidayService) (Some 1735657200000)
        = ([WarnSchedulerBasicHolidays], Inr True)
   \<and> schedulerIsHoliday (fixedOffset 32400000) (Some newHolidayService) None
        = ([WarnSchedulerBasicHolidays], Inr False)"
  using isHoliday_before_initialization [of newHolidayService "fixedOffset 32400000" "Some 1735657200000" 1735657200000]
    isHoliday_before_initialization [of newHolidayService "fixedOffset 32400000" None 0]
  by (simp add: newHolidayService_def newYear_2025_fields)

text \<open>
  On 1 January 2025 (Japan Standard Time) \<open>Scheduler.isHoliday\<close> answers true although
  the service is not initialised.
\<close>

theorem schedulerIsHoliday_counterexample:
  "\<not> isInitialized newHolidayService
   \<and> schedulerIsHoliday (fixedOffset 32400000) (Some newHolidayService) (Some 1735657200000)
        = ([WarnSchedulerBasicHolidays], Inr True)"
  using fallbackHolidayCheck_valid [of "fixedOffset 32400000" 1735657200000]
  by (simp add: schedulerIsHoliday_def newHolidayService_def newYear_2025_fields)

section \<open>Adding a candidate\<close>

lemma set_insertBy: "set (insertBy p x xs) = insert x (set xs)"
  by (induction xs) auto

lemma length_insertBy: "length (insertBy p x xs) = Suc (length xs)"
  by (induction xs) auto

lemma foldl_insertBy_set: "set (foldl (\<lambda>acc x. insertBy p x acc) acc xs) = set acc \<union> set xs"
  by (induction xs arbitrary: acc) (auto simp: set_insertBy)

lemma foldl_insertBy_length:
  "length (foldl (\<lambda>acc x. insertBy p x acc) acc xs) = length acc + length xs"
  by (induction xs arbitrary: acc) (auto simp: length_insertBy)

lemma set_sortBy: "set (sortBy p xs) = set xs"
  by (simp add: sortBy_def foldl_insertBy_set)

lemma length_sortBy: "length (sortBy p xs) = length xs"
  by (simp add: sortBy_def foldl_insertBy_length)

lemma div_smod_60: "0 \<le> x \<Longrightarrow> x div 60 * 60 + x smod 60 = (x::int)"
  by (simp add: smod_nonneg)

text \<open>
  Claim C6 (as amended). For a drag between two cells at the minutes of the day \<open>s\<close> and
  \<open>e\<close> (not negative), the candidate built by \<open>addCandidate\<close> starts at
  \<open>min s e\<close> and ends at \<open>max s e + 15\<close>: the step added is the constant 15,
  whatever the configured \<open>minuteInterval\<close>, and is one interval step under the
  constructor's configuration. With both ends of the selection set, \<open>addCandidate\<close> adds
  exactly this candidate to the list. (As stated for every interval the claim fails,
  \<open>addCandidate_interval_counterexample\<close>.)
\<close>

theorem addCandidate_range:
  assumes "0 \<le> hour s * 60 + minute s" and "0 \<le> hour e * 60 + minute e"
  shows "startMinutes (draggedCandidate tz now app s e)
           = min (hour s * 60 + minute s) (hour e * 60 + minute e)
     \<and> endMinutes (draggedCandidate tz now app s e)
           = max (hour s * 60 + minute s) (hour e * 60 + minute e) + 15
     \<and> (selectionStart app = Some s \<and> selectionEnd app = Some e \<longrightarrow>
          set (selectedCandidates (addCandidate tz now app))
            = insert (draggedCandidate tz now app s e) (set (selectedCandidates app))
          \<and> length (selectedCandidates (addCandidate tz now app))
            = length (selectedCandidates app) + 1)"
proof -
  let ?st = "hour s * 60 + minute s"
  let ?et = "hour e * 60 + minute e"
  have a: "0 \<le> min ?st ?et" using assms by simp
  have b: "0 \<le> (if ?st = ?et then min ?st ?et + 15 else max ?st ?et + 15)" using assms by simp
  have c: "(if ?st = ?et then min ?st ?et + 15 else max ?st ?et + 15) = max ?st ?et + 15" by simp
  have "startMinutes (draggedCandidate tz now app s e) = min ?st ?et"
    using div_smod_60 [OF a] by (simp add: draggedCandidate_def startMinutes_def Let_def)
  moreover have "endMinutes (draggedCandidate tz now app s e)
       = (if ?st = ?et then min ?st ?et + 15 else max ?st ?et + 15)"
    unfolding draggedCandidate_def endMinutes_def Let_def
    using div_smod_60 [OF b] by (simp del: min.absorb1 min.absorb2 max.absorb1 max.absorb2 split: if_splits)
  then have "endMinutes (draggedCandidate tz now app s e) = max ?st ?et + 15"
    by (simp only: c)
  ultimately show ?thesis
    by (simp add: addCandidate_def sortCandidates_def set_sortBy length_sortBy)
qed

theorem addCandidate_range_witness:
  "(0::int) \<le> 9 * 60 + 0 \<and> (0::int) \<le> 10 * 60 + 30
   \<and> startMinutes (draggedCandidate (fixedOffset 32400000) 1 
        \<lparr>currentWeek = Some 1753232400000, timeRange = defaultTimeRange, selectedCandidates = [],
          isSelecting = False, selectionStart = Some \<lparr>hour = 10, minute = 30, day = 2\<rparr>,
          selectionEnd = Some \<lparr>hour = 9, minute = 0, day = 2\<rparr>\<rparr>
        \<lparr>hour = 10, minute = 30, day = 2\<rparr> \<lparr>hour = 9, minute = 0, day = 2\<rparr>) = 9 * 60
   \<and> endMinutes (draggedCandidate (fixedOffset 32400000) 1 
        \<lparr>currentWeek = Some 1753232400000, timeRange = defaultTimeRange, selectedCandidates = [],
          isSelecting = False, selectionStart = Some \<lparr>hour = 10, minute = 30, day = 2\<rparr>,
          selectionEnd = Some \<lparr>hour = 9, minute = 0, day = 2\<rparr>\<rparr>
        \<lparr>hour = 10, minute = 30, day = 2\<rparr> \<lparr>hour = 9, minute = 0, day = 2\<rparr>) = 10 * 60 + 45
   \<and> length (selectedCandidates (addCandidate (fixedOffset 32400000) 1
        \<lparr>currentWeek = Some 1753232400000, timeRange = defaultTimeRange, selectedCandidates = [],
          isSelecting = False, selectionStart = Some \<lparr>hour = 10, minute = 30, day = 2\<rparr>,
          selectionEnd = Some \<lparr>hour = 9, minute = 0, day = 2\<rparr>\<rparr>)) = 1"
  using addCandidate_range [of "\<lparr>hour = 10, minute = 30, day = 2\<rparr>" "\<lparr>hour = 9, minute = 0, day = 2\<rparr>"
      "fixedOffset 32400000" 1 "\<lparr>currentWeek = Some 1753232400000, timeRange = defaultTimeRange, selectedCandidates = [],
          isSelecting = False, selectionStart = Some \<lparr>hour = 10, minute = 30, day = 2\<rparr>,
          selectionEnd = Some \<lparr>hour = 9, minute = 0, day = 2\<rparr>\<rparr>"]
  by simp

text \<open>
  With a configured interval of 30 minutes, a drag from 9:00 to 10:00 ends at 10:15, not at
  10:30.
\<close>

theorem addCandidate_interval_counterexample:
  "minuteInterval (timeRange
       \<lparr>currentWeek = Some 1753232400000,
         timeRange = \<lparr>rangeStartHour = 9, rangeEndHour = 18, minuteInterval = 30\<rparr>,
         selectedCandidates = [], isSelecting = False,
         selectionStart = Some \<lparr>hour = 9, minute = 0, day = 2\<rparr>,
         selectionEnd = Some \<lparr>hour = 10, minute = 0, day = 2\<rparr>\<rparr>) = 30
   \<and> endMinutes (draggedCandidate (fixedOffset 32400000) 1
       \<lparr>currentWeek = Some 1753232400000,
         timeRange = \<lparr>rangeStartHour = 9, rangeEndHour = 18, minuteInterval = 30\<rparr>,
         selectedCandidates = [], isSelecting = False,
         selectionStart = Some \<lparr>hour = 9, minute = 0, day = 2\<rparr>,
         selectionEnd = Some \<lparr>hour = 10, minute = 0, day = 2\<rparr>\<rparr>
       \<lparr>hour = 9, minute = 0, day = 2\<rparr> \<lparr>hour = 10, minute = 0, day = 2\<rparr>) = 10 * 60 + 15
   \<and> max (9 * 60 + 0) (10 * 60 + 0) + 30 = (10 * 60 + 30 :: int)"
  by (simp add: draggedCandidate_def endMinutes_def Let_def signed_modulo_int_def)

section \<open>Date keys and calendar days\<close>

lemma monthLength_le:
  assumes "0 \<le> m" "m \<le> 11" "0 \<le> l" "l \<le> 1"
  shows "monthStart (m + 1) l - monthStart m l \<le> 31"
proof -
  have "m = 0 \<or> m = 1 \<or> m = 2 \<or> m = 3 \<or> m = 4 \<or> m = 5 \<or> m = 6 \<or> m = 7 \<or> m = 8
      \<or> m = 9 \<or> m = 10 \<or> m = 11"
  proof -
    have "m \<in> {0..11}" using assms(1,2) by simp
    also have "{0..11::int} = set [0..11]" by simp
    finally show ?thesis by (simp add: upto.simps)
  qed
  then show ?thesis using assms(3,4) by (elim disjE) (simp_all add: monthStart_def)
qed

lemma DateFromTime_le: "DateFromTime t \<le> 31"
  using MonthFromTime_bracket(2) [of t] MonthFromTime_range [of t] InLeapYear_range [of t]
    monthLength_le [of "MonthFromTime t" "InLeapYear t"]
  by (simp add: DateFromTime_def)

lemma pad2_small:
  assumes "0 \<le> i" "i < 100"
  shows "pad2 i = [digitChar (nat i div 10), digitChar (nat i mod 10)]"
proof (cases "i < 10")
  case True
  then have "nat i < 10" "nat i div 10 = 0" "nat i mod 10 = nat i" using assms by simp_all
  then show ?thesis using assms
    by (simp add: pad2_def numberToString_def natToString.simps [of "nat i"] padStart_def digitChar_def)
next
  case False
  then have a: "\<not> nat i < 10" "nat i div 10 < 10" using assms by simp_all
  have "natToString (nat i) = natToString (nat i div 10) @ [digitChar (nat i mod 10)]"
    using a(1) by (subst natToString.simps) simp
  also have "natToString (nat i div 10) = [digitChar (nat i div 10)]"
    using a(2) by (subst natToString.simps) simp
  finally show ?thesis using assms
    by (simp add: pad2_def numberToString_def padStart_def)
qed

lemma pad2_inj:
  assumes "0 \<le> i" "i < 100" "0 \<le> j" "j < 100" "pad2 i = pad2 j"
  shows "i = j"
proof -
  have "nat i div 10 = nat j div 10" "nat i mod 10 = nat j mod 10"
    using assms by (simp_all add: pad2_small digitChar_def)
  then have "nat i = nat j" by (metis div_mult_mod_eq)
  then show ?thesis using assms by simp
qed

lemma pad2_length: "0 \<le> i \<Longrightarrow> i < 100 \<Longrightarrow> length (pad2 i) = 2"
  by (simp add: pad2_small)

lemma getDateKey_valid:
  "getDateKey tz (Some t) =
     numberToString (YearFromTime (LocalTime tz t)) @ js ''-''
       @ pad2 (MonthFromTime (LocalTime tz t) + 1) @ js ''-'' @ pad2 (DateFromTime (LocalTime tz t))"
  by (simp add: getDateKey_def getFullYear_def getMonth_def getDate_def numToString_def pad2_def Let_def)

lemma fields_of_Day:
  assumes "Day a = Day b"
  shows "YearFromTime a = YearFromTime b" "MonthFromTime a = MonthFromTime b"
    "DateFromTime a = DateFromTime b"
proof -
  show y: "YearFromTime a = YearFromTime b" by (simp only: YearFromTime_def assms)
  have d: "DayWithinYear a = DayWithinYear b" by (simp only: DayWithinYear_def assms y)
  have l: "InLeapYear a = InLeapYear b" by (simp only: InLeapYear_def y)
  show m: "MonthFromTime a = MonthFromTime b" by (simp only: MonthFromTime_def d l)
  show "DateFromTime a = DateFromTime b" by (simp only: DateFromTime_def d l m)
qed

lemma append_same_length_tail:
  "length us = length vs \<Longrightarrow> xs @ us = ys @ vs \<Longrightarrow> xs = ys \<and> us = vs"
  by simp

lemma append_same_length_head:
  "length xs = length ys \<Longrightarrow> xs @ us = ys @ vs \<Longrightarrow> xs = ys \<and> us = vs"
  by simp

lemma getDateKey_eq_iff:
  "getDateKey tz (Some a) = getDateKey tz (Some b)
     \<longleftrightarrow> Day (LocalTime tz a) = Day (LocalTime tz b)"
proof
  let ?a = "LocalTime tz a" and ?b = "LocalTime tz b"
  assume e: "getDateKey tz (Some a) = getDateKey tz (Some b)"
  have ma: "0 \<le> MonthFromTime ?a + 1" "MonthFromTime ?a + 1 < 100"
    and mb: "0 \<le> MonthFromTime ?b + 1" "MonthFromTime ?b + 1 < 100"
    using MonthFromTime_range [of ?a] MonthFromTime_range [of ?b] by simp_all
  have da: "0 \<le> DateFromTime ?a" "DateFromTime ?a < 100"
    and db: "0 \<le> DateFromTime ?b" "DateFromTime ?b < 100"
    using DateFromTime_pos [of ?a] DateFromTime_le [of ?a] DateFromTime_pos [of ?b] DateFromTime_le [of ?b]
    by simp_all
  let ?da = "js ''-'' @ pad2 (DateFromTime ?a)"
  let ?db = "js ''-'' @ pad2 (DateFromTime ?b)"
  let ?ta = "js ''-'' @ pad2 (MonthFromTime ?a + 1) @ ?da"
  let ?tb = "js ''-'' @ pad2 (MonthFromTime ?b + 1) @ ?db"
  have lm: "length (pad2 (MonthFromTime ?a + 1)) = length (pad2 (MonthFromTime ?b + 1))"
    by (simp only: pad2_length ma mb)
  have ld: "length (pad2 (DateFromTime ?a)) = length (pad2 (DateFromTime ?b))"
    by (simp only: pad2_length da db)
  have len: "length ?ta = length ?tb"
    by (simp only: length_append lm ld)
  have "numberToString (YearFromTime ?a) @ ?ta = numberToString (YearFromTime ?b) @ ?tb"
    using e by (simp only: getDateKey_valid)
  then have yt: "numberToString (YearFromTime ?a) = numberToString (YearFromTime ?b) \<and> ?ta = ?tb"
    by (rule append_same_length_tail [OF len])
  then have "pad2 (MonthFromTime ?a + 1) @ ?da = pad2 (MonthFromTime ?b + 1) @ ?db"
    by (simp only: same_append_eq)
  then have md: "pad2 (MonthFromTime ?a + 1) = pad2 (MonthFromTime ?b + 1) \<and> ?da = ?db"
    by (rule append_same_length_head [OF lm])
  then have "pad2 (DateFromTime ?a) = pad2 (DateFromTime ?b)"
    by (simp only: same_append_eq)
  then have d: "DateFromTime ?a = DateFromTime ?b"
    by (rule pad2_inj [OF da db])
  have "MonthFromTime ?a + 1 = MonthFromTime ?b + 1"
    using md by (intro pad2_inj [OF ma mb]) (rule conjunct1)
  then have m: "MonthFromTime ?a = MonthFromTime ?b" by simp
  have y: "YearFromTime ?a = YearFromTime ?b"
    using yt by (intro numberToString_inj) (rule conjunct1)
  have l: "InLeapYear ?a = InLeapYear ?b" by (simp only: InLeapYear_def y)
  show "Day ?a = Day ?b"
    by (simp only: Day_fields [of ?a] Day_fields [of ?b] y m d l)
next
  assume e: "Day (LocalTime tz a) = Day (LocalTime tz b)"
  show "getDateKey tz (Some a) = getDateKey tz (Some b)"
    by (simp only: getDateKey_valid fields_of_Day [OF e])
qed


section \<open>Conflicts between candidates\<close>

lemma conflictsWith_filter:
  "conflictsWith tz a bs = map (mkConflict a) (filter (timeOverlap tz a) bs)"
  by (induction bs) simp_all

lemma drop_as_nth: "drop k cs = map (nth cs) [k..<length cs]"
proof -
  have "drop k cs = drop k (map (nth cs) [0..<length cs])" by (simp only: map_nth)
  also have "\<dots> = map (nth cs) (drop k [0..<length cs])" by (simp only: drop_map)
  also have "drop k [0..<length cs] = [k..<length cs]" by simp
  finally show ?thesis .
qed

lemma conflictsWith_indices:
  "conflictsWith tz (cs ! i) (drop (Suc i) cs)
     = [mkConflict (cs ! i) (cs ! j). j \<leftarrow> [Suc i..<length cs], timeOverlap tz (cs ! i) (cs ! j)]"
proof -
  have "map (mkConflict a) (filter P (map (nth cs) js))
      = concat (map (\<lambda>j. if P (cs ! j) then [mkConflict a (cs ! j)] else []) js)" for a P js
    by (induction js) simp_all
  then show ?thesis
    unfolding conflictsWith_filter drop_as_nth [of "Suc i" cs] by simp
qed

lemma checkTimeConflicts_rows:
  "checkTimeConflicts tz cs
     = concat (map (\<lambda>i. conflictsWith tz (cs ! i) (drop (Suc i) cs)) [0..<length cs])"
proof (induction cs)
  case Nil
  show ?case by simp
next
  case (Cons a rest)
  have "[0..<length (a # rest)] = 0 # map Suc [0..<length rest]"
    by (simp add: upt_conv_Cons map_Suc_upt del: upt_Suc)
  then show ?case using Cons.IH by (simp add: comp_def del: upt_Suc)
qed

lemma checkTimeConflicts_pairs:
  "checkTimeConflicts tz cs
     = [mkConflict (cs ! i) (cs ! j).
          i \<leftarrow> [0..<length cs], j \<leftarrow> [Suc i..<length cs], timeOverlap tz (cs ! i) (cs ! j)]"
  unfolding checkTimeConflicts_rows by (simp only: conflictsWith_indices)

lemma timeOverlap_valid:
  assumes "date_c a = Some ta" "date_c b = Some tb"
  shows "timeOverlap tz a b \<longleftrightarrow>
     Day (LocalTime tz ta) = Day (LocalTime tz tb)
     \<and> startMinutes a < endMinutes b \<and> startMinutes b < endMinutes a"
  using assms by (auto simp: timeOverlap_def getDateKey_eq_iff startMinutes_def endMinutes_def Let_def)

lemma exampleCandidate_fields:
  "date_c (exampleCandidate i sh sm eh em) = Some (1753232400000 + i)"
  "startMinutes (exampleCandidate i sh sm eh em) = sh * 60 + sm"
  "endMinutes (exampleCandidate i sh sm eh em) = eh * 60 + em"
  by (simp_all add: exampleCandidate_def startMinutes_def endMinutes_def)

text \<open>
  Claim C8. \<open>checkTimeConflicts\<close> returns, in the order of the two loops, one conflict
  for every pair of positions \<open>i < j\<close> whose candidates have the same date key and
  strictly overlapping times, and nothing else. For two candidates with valid dates the
  date keys are equal exactly when the dates fall on the same calendar day, so a pair is
  flagged exactly when it is on one calendar day with \<open>startA < endB\<close> and
  \<open>endA > startB\<close>; ranges that only touch are not flagged.
\<close>

theorem checkTimeConflicts_exact:
  "checkTimeConflicts tz cs
     = [mkConflict (cs ! i) (cs ! j).
          i \<leftarrow> [0..<length cs], j \<leftarrow> [Suc i..<length cs], timeOverlap tz (cs ! i) (cs ! j)]
   \<and> (date_c a = Some ta \<and> date_c b = Some tb \<longrightarrow>
        timeOverlap tz a b
          = (Day (LocalTime tz ta) = Day (LocalTime tz tb)
             \<and> startMinutes a < endMinutes b \<and> endMinutes a > startMinutes b))"
  using checkTimeConflicts_pairs [of tz cs] timeOverlap_valid [of a ta b tb tz] by auto

theorem checkTimeConflicts_exact_witness:
  "date_c (exampleCandidate 1 9 0 10 0) = Some 1753232400001
   \<and> date_c (exampleCandidate 2 9 30 10 30) = Some 1753232400002
   \<and> date_c (exampleCandidate 3 10 0 11 0) = Some 1753232400003
   \<and> checkTimeConflicts (fixedOffset 32400000) [exampleCandidate 1 9 0 10 0, exampleCandidate 2 9 30 10 30]
        = [mkConflict (exampleCandidate 1 9 0 10 0) (exampleCandidate 2 9 30 10 30)]
   \<and> checkTimeConflicts (fixedOffset 32400000) [exampleCandidate 1 9 0 10 0, exampleCandidate 3 10 0 11 0] = []"
proof -
  have a: "timeOverlap (fixedOffset 32400000) (exampleCandidate 1 9 0 10 0) (exampleCandidate 2 9 30 10 30)"
    using checkTimeConflicts_exact [of "fixedOffset 32400000" "[]" "exampleCandidate 1 9 0 10 0" 1753232400001
        "exampleCandidate 2 9 30 10 30" 1753232400002]
    by (simp add: exampleCandidate_fields Day_def LocalTime_fixed msPerDay_def)
  have b: "\<not> timeOverlap (fixedOffset 32400000) (exampleCandidate 1 9 0 10 0) (exampleCandidate 3 10 0 11 0)"
    using checkTimeConflicts_exact [of "fixedOffset 32400000" "[]" "exampleCandidate 1 9 0 10 0" 1753232400001
        "exampleCandidate 3 10 0 11 0" 1753232400003]
    by (simp add: exampleCandidate_fields Day_def LocalTime_fixed msPerDay_def)
  show ?thesis
    using a b by (simp add: exampleCandidate_fields)
qed

section \<open>The holiday lookup with the mapping loaded\<close>

lemma splitOn_first: "c \<notin> set a \<Longrightarrow> splitOn c (a @ c # b) = a # splitOn c b"
  by (induction a) simp_all

lemma numberToString_chars: "x \<in> set (numberToString i) \<Longrightarrow> x = 45 \<or> (48 \<le> x \<and> x \<le> 57)"
  using natToString_digits by (auto simp: numberToString_def split: if_splits)

lemma padStart_chars: "x \<in> set (padStart n c s) \<Longrightarrow> x = c \<or> x \<in> set s"
  by (auto simp: padStart_def)

lemma pad2_chars: "x \<in> set (pad2 i) \<Longrightarrow> x = 45 \<or> (48 \<le> x \<and> x \<le> 57)"
  using padStart_chars [of x 2 48 "numberToString i"] numberToString_chars [of x i]
  by (auto simp: pad2_def)

lemma isoYear_chars: "x \<in> set (isoYear y) \<Longrightarrow> x = 43 \<or> x = 45 \<or> (48 \<le> x \<and> x \<le> 57)"
  using padStart_chars [of x 4 48 "natToString (nat y)"] padStart_chars [of x 6 48 "natToString (nat \<bar>y\<bar>)"]
    natToString_digits [of x]
  by (auto simp: isoYear_def split: if_splits)

lemma isoDate_chars: "x \<in> set (isoDate t) \<Longrightarrow> x = 43 \<or> x = 45 \<or> (48 \<le> x \<and> x \<le> 57)"
  using isoYear_chars [of x] pad2_chars [of x]
  by (auto simp: isoDate_def js_def)

lemma isoDateOf_valid: "isoDateOf (Some t) = Inr (isoDate t)"
proof -
  have "84 \<notin> set (isoDate t)" using isoDate_chars [of 84 t] by auto
  then have "hd (splitOn 84 (isoDate t @ 84 # r)) = isoDate t" for r
    by (simp add: splitOn_first)
  then show ?thesis by (simp add: isoDateOf_def toISOString_def js_def)
qed

lemma isoDateOf_invalid: "isoDateOf None = Inl RangeError"
  by (simp add: isoDateOf_def toISOString_def)

lemma list_ex_date: "list_ex (\<lambda>holiday. date holiday = s) entries \<longleftrightarrow> s \<in> set (map date entries)"
  by (induction entries) auto

lemma isHolidayFromJSON_valid:
  "isHolidayFromJSON tz h (Some t)
     = Inr (case h (numberToString (YearFromTime (LocalTime tz t))) of
              None \<Rightarrow> False
            | Some entries \<Rightarrow> isoDate t \<in> set (map date entries))"
  by (simp add: isHolidayFromJSON_def isoDateOf_valid getFullYear_def numToString_def Let_def
      list_ex_date split: option.splits)

text \<open>
  What the code computes with the holiday mapping loaded. On a valid date \<open>isHoliday\<close>
  writes nothing, throws nothing and returns false when the mapping has no entry for the
  decimal string of the date's local year, and otherwise returns whether the string of
  \<open>toISOString\<close>, which is the date's day in UTC (\<open>isoDate\<close>), is the \<open>date\<close> of
  an entry of that year's list.
\<close>

lemma isHoliday_fromJSON:
  assumes "isInitialized svc" and "holidayData svc = Some h"
  shows "isHoliday tz svc (Some t)
     = ([], Inr (case h (numberToString (YearFromTime (LocalTime tz t))) of
                   None \<Rightarrow> False
                 | Some entries \<Rightarrow> isoDate t \<in> set (map date entries)))"
  using assms by (simp add: isHoliday_def isHolidayFromJSON_valid)

lemma example_isoDates:
  "isoDate 1753059600000 = js ''2025-07-21''"
  "isoDate 1753052400000 = js ''2025-07-20''"
  "isoDate 1753146000000 = js ''2025-07-22''"
  "isoDate 1721523600000 = js ''2024-07-21''"
  "numberToString (YearFromTime (LocalTime (fixedOffset 32400000) 1753059600000)) = js ''2025''"
  "numberToString (YearFromTime (LocalTime (fixedOffset 32400000) 1753052400000)) = js ''2025''"
  "numberToString (YearFromTime (LocalTime (fixedOffset 32400000) 1753146000000)) = js ''2025''"
  "numberToString (YearFromTime (LocalTime (fixedOffset 32400000) 1721523600000)) = js ''2024''"
  by (simp_all add: isoDate_def isoYear_def pad2_def padStart_def numberToString_def
    natToString.simps digitChar_def js_def calendar_eval)

text \<open>
  Examples in Japan Standard Time: 21 July 2025 at 10:00 (a listed holiday), the same day
  at 8:00 (whose UTC day is the 20th), 22 July 2025 and 21 July 2024 (a year without entry).
\<close>

lemma isHoliday_fromJSON_examples:
  "isHoliday (fixedOffset 32400000) (initializedFromJSON exampleHolidays) (Some 1753059600000) = ([], Inr True)
   \<and> isHoliday (fixedOffset 32400000) (initializedFromJSON exampleHolidays) (Some 1753052400000) = ([], Inr False)
   \<and> isHoliday (fixedOffset 32400000) (initializedFromJSON exampleHolidays) (Some 1753146000000) = ([], Inr False)
   \<and> isHoliday (fixedOffset 32400000) (initializedFromJSON exampleHolidays) (Some 1721523600000) = ([], Inr False)"
proof -
  have i: "isInitialized (initializedFromJSON exampleHolidays)"
    and h: "holidayData (initializedFromJSON exampleHolidays) = Some exampleHolidays"
    by (simp_all add: initializedFromJSON_def)
  have k: "js ''2024'' \<noteq> js ''2025''" "js ''2025-07-22'' \<noteq> js ''2025-01-01''"
      "js ''2025-07-22'' \<noteq> js ''2025-07-21''" "js ''2025-07-21'' \<noteq> js ''2025-01-01''"
      "js ''2025-07-20'' \<noteq> js ''2025-07-21''" "js ''2025-07-20'' \<noteq> js ''2025-01-01''"
    by (simp_all add: js_def)
  show ?thesis
    using isHoliday_fromJSON [OF i h, of "fixedOffset 32400000" 1753059600000]
      isHoliday_fromJSON [OF i h, of "fixedOffset 32400000" 1753052400000]
      isHoliday_fromJSON [OF i h, of "fixedOffset 32400000" 1753146000000]
      isHoliday_fromJSON [OF i h, of "fixedOffset 32400000" 1721523600000] i h k
    by (simp add: example_isoDates exampleHolidays_def)
qed

lemma local_midnight_isoDates:
  "isoDate 1735657200000 = js ''2024-12-31''"
  "isoDate 1753117200000 = js ''2025-07-21''"
  "numberToString (YearFromTime (LocalTime (fixedOffset 32400000) 1735657200000)) = js ''2025''"
  "numberToString (YearFromTime (LocalTime (fixedOffset 32400000) 1753117200000)) = js ''2025''"
  "getDateKey (fixedOffset 32400000) (Some 1735657200000) = js ''2025-01-01''"
  "getDateKey (fixedOffset 32400000) (Some 1753117200000) = js ''2025-07-22''"
  by (simp_all add: getDateKey_valid isoDate_def isoYear_def pad2_def padStart_def numberToString_def
    natToString.simps digitChar_def js_def calendar_eval)

text \<open>
  Claim C3. With the holiday mapping loaded, \<open>isHoliday\<close> is to return false when the
  mapping has no entry for the date's year, and otherwise whether the date's ISO
  calendar-date string is in that year's list. The code does not: it reads the year in
  local time and the calendar date in UTC, where the rest of the program (the fallback
  lookup, \<open>getDateKey\<close>) reads the local day. In Japan, with 1 January 2025 and 21 July
  2025 listed: at 0:00 on 1 January 2025 the string looked up is \<open>2024-12-31\<close> and the
  answer is false; at 2:00 on 22 July 2025 it is \<open>2025-07-21\<close> and the answer is true;
  and on an invalid date \<open>toISOString\<close> throws.
\<close>

theorem isHoliday_primary_local_midnight:
  "exampleHolidays (js ''2025'') = Some [\<lparr>date = js ''2025-01-01'', name = js ''New Year''\<rparr>,
      \<lparr>date = js ''2025-07-21'', name = js ''Marine Day''\<rparr>]
   \<and> getDateKey (fixedOffset 32400000) (Some 1735657200000) = js ''2025-01-01''
   \<and> isoDateOf (Some 1735657200000) = Inr (js ''2024-12-31'')
   \<and> isHoliday (fixedOffset 32400000) (initializedFromJSON exampleHolidays) (Some 1735657200000)
       = ([], Inr False)
   \<and> getDateKey (fixedOffset 32400000) (Some 1753117200000) = js ''2025-07-22''
   \<and> isoDateOf (Some 1753117200000) = Inr (js ''2025-07-21'')
   \<and> isHoliday (fixedOffset 32400000) (initializedFromJSON exampleHolidays) (Some 1753117200000)
       = ([], Inr True)
   \<and> isHoliday (fixedOffset 32400000) (initializedFromJSON exampleHolidays) None
       = ([], Inl RangeError)"
proof -
  have k: "js ''2024-12-31'' \<noteq> js ''2025-01-01''" "js ''2024-12-31'' \<noteq> js ''2025-07-21''"
    by (simp_all add: js_def)
  have a: "isHoliday (fixedOffset 32400000) (initializedFromJSON exampleHolidays) (Some 1735657200000)
      = ([], Inr False)"
    using k by (simp add: isHoliday_def initializedFromJSON_def isHolidayFromJSON_valid
        local_midnight_isoDates exampleHolidays_def)
  have b: "isHoliday (fixedOffset 32400000) (initializedFromJSON exampleHolidays) (Some 1753117200000)
      = ([], Inr True)"
    by (simp add: isHoliday_def initializedFromJSON_def isHolidayFromJSON_valid
        local_midnight_isoDates exampleHolidays_def)
  have c: "isHoliday (fixedOffset 32400000) (initializedFromJSON exampleHolidays) None
      = ([], Inl RangeError)"
    by (simp add: isHoliday_def initializedFromJSON_def isHolidayFromJSON_def isoDateOf_invalid Let_def)
  show ?thesis
    using a b c by (simp add: isoDateOf_valid local_midnight_isoDates exampleHolidays_def)
qed

section \<open>The holiday lookup in fallback mode\<close>

lemma fixedHolidays_keys:
  "fixedHolidays = map (\<lambda>(m, d). numberToString m @ js ''-'' @ numberToString d)
       [(1, 1), (2, 11), (4, 29), (5, 3), (5, 4), (5, 5), (8, 11), (11, 3), (11, 23), (12, 23)]"
  by (simp add: fixedHolidays_def js_def numberToString_def natToString.simps digitChar_def)

lemma fixedHolidays_member:
  assumes "0 \<le> m" "0 \<le> d"
  shows "numberToString m @ js ''-'' @ numberToString d \<in> set fixedHolidays \<longleftrightarrow>
     (m, d) \<in> set [(1, 1), (2, 11), (4, 29), (5, 3), (5, 4), (5, 5), (8, 11), (11, 3), (11, 23), (12, 23)]"
  unfolding fixedHolidays_keys by (simp add: monthDayKey_inj [OF assms])

lemma MakeDay_add: "MakeDay y m (a + b) = MakeDay y m a + b"
  by (simp add: MakeDay_def Let_def)

lemma newDate3_valid:
  "newDate3 (fixedOffset tza) (Some y) (Some m) (Some d)
     = TimeClip (MakeDay (if 0 \<le> y \<and> y \<le> 99 then 1900 + y else y) m d * msPerDay - tza)"
  by (simp add: newDate3_def Let_def UTC_fixed MakeDate_def)

lemma TimeClip_Some: "TimeClip t = Some u \<Longrightarrow> u = t"
  by (simp add: TimeClip_def split: if_splits)

lemma Day_of_fields:
  assumes "YearFromTime t = y" "MonthFromTime t = m" "DateFromTime t = d"
  shows "Day t = MakeDay y m d"
proof -
  have "m div 12 = 0" "m mod 12 = m"
    using MonthFromTime_range [of t] assms(2) by simp_all
  then show ?thesis
    using Day_fields [of t] assms by (simp add: MakeDay_def Let_def InLeapYear_def)
qed

lemma month_cases:
  assumes "0 \<le> m" "m \<le> 11"
  shows "m = 0 \<or> m = 1 \<or> m = 2 \<or> m = 3 \<or> m = 4 \<or> m = 5 \<or> m = 6 \<or> m = 7 \<or> m = 8
      \<or> m = 9 \<or> m = 10 \<or> m = (11::int)"
proof -
  have "m \<in> {0..11}" using assms by simp
  also have "{0..11::int} = set [0..11]" by simp
  finally show ?thesis by (simp add: upto.simps)
qed

lemma monthStart_bounds:
  assumes "0 \<le> m" "m \<le> 11" "0 \<le> l"
  shows "0 \<le> monthStart m l" "monthStart m l \<le> 334 + l"
  using month_cases [OF assms(1,2)] assms(3) by (auto simp: monthStart_def)

lemma Day_whole_days: "Day (d * msPerDay) = d"
  by (simp add: Day_def msPerDay_def)

lemma fields_of_MakeDay:
  assumes m: "0 \<le> m" "m \<le> 11" and d: "1 \<le> d" "d \<le> 28" and x: "Day x = MakeDay y m d"
  shows "YearFromTime x = y" "MonthFromTime x = m" "DateFromTime x = d"
proof -
  define l where "l = leapDays y"
  have l: "0 \<le> l" "l \<le> 1" by (simp_all add: l_def leapDays_def)
  have dm: "m div 12 = 0" "m mod 12 = m" using m by simp_all
  have day: "Day x = DayFromYear y + monthStart m l + d - 1"
    unfolding x l_def by (simp add: MakeDay_def Let_def dm)
  have "DayFromYear y \<le> Day x"
    using day monthStart_bounds(1) [OF m l(1)] d by simp
  moreover have "Day x < DayFromYear (y + 1)"
    using day monthStart_bounds(2) [OF m l(1)] d DayFromYear_Suc [of y] DaysInYear_leap(2) [of y]
    by (simp add: l_def)
  ultimately have "YearFromDay (Day x) = y" by (rule YearFromDay_unique)
  then show y: "YearFromTime x = y" by (simp add: YearFromTime_def)
  have w: "DayWithinYear x = monthStart m l + d - 1"
    unfolding DayWithinYear_def y day by simp
  have il: "InLeapYear x = l" by (simp add: InLeapYear_def y l_def)
  have "l = 0 \<or> l = 1" using l by auto
  then show mm: "MonthFromTime x = m"
    unfolding MonthFromTime_def w il Let_def
    using month_cases [OF m] d by (elim disjE) (simp_all add: monthStart_def)
  show "DateFromTime x = d"
    unfolding DateFromTime_def mm w il by simp
qed

lemma newDate3_zone:
  assumes "y < 0 \<or> 99 < y" and "offsetAtLocal tz (MakeDay y m d * msPerDay) = c"
  shows "newDate3 tz (Some y) (Some m) (Some d) = TimeClip (MakeDay y m d * msPerDay - c)"
  using assms by (auto simp: newDate3_def Let_def UTC_def MakeDate_def)

lemma nthMonday_arith:
  fixes F n :: int
  defines "k \<equiv> 1 + (1 - (F + 4) mod 7 + 7) mod 7 + (n - 1) * 7"
  shows "7 * (n - 1) < k" "k \<le> 7 * n" "(F + k - 1 + 4) mod 7 = 1"
    and "7 * (n - 1) < d \<Longrightarrow> d \<le> 7 * n \<Longrightarrow> (F + d - 1 + 4) mod 7 = 1 \<Longrightarrow> d = k"
  unfolding k_def by presburger+

text \<open>The first \<open>n\<close> Mondays of a month, for \<open>n\<close> up to 3.\<close>

lemma getNthWeekdayOfMonth_monday:
  fixes y m n c :: int and tz :: timeZone
  defines "F \<equiv> MakeDay y m 1"
  defines "k \<equiv> 1 + (1 - (F + 4) mod 7 + 7) mod 7 + (n - 1) * 7"
  assumes y: "y < 0 \<or> 99 < y" and m: "0 \<le> m" "m \<le> 11" and n: "1 \<le> n" "n \<le> 3"
    and first: "- maxTime \<le> F * msPerDay - c" "F * msPerDay - c \<le> maxTime"
    and zone: "\<forall>j \<in> {0..20}. offsetAtLocal tz ((F + j) * msPerDay) = c
                 \<and> offsetAtUTC tz ((F + j) * msPerDay - c) = c"
  shows "getNthWeekdayOfMonth tz y (m + 1) 1 n = TimeClip (MakeDay y m k * msPerDay - c)"
proof -
  have zl: "offsetAtLocal tz ((F + j) * msPerDay) = c"
    and zu: "offsetAtUTC tz ((F + j) * msPerDay - c) = c" if "0 \<le> j" "j \<le> 20" for j
    using zone that by simp_all
  have md: "MakeDay y m (1 + j) = F + j" for j
    unfolding F_def using MakeDay_add [of y m 1 j] by simp
  have "newDate3 tz (Some y) (Some m) (Some 1) = TimeClip (MakeDay y m 1 * msPerDay - c)"
    using zl [of 0] by (intro newDate3_zone [OF y]) (simp add: F_def)
  also have "\<dots> = Some (F * msPerDay - c)"
    unfolding F_def [symmetric] using first by (rule TimeClip_in_range)
  finally have f: "newDate3 tz (Some y) (Some m) (Some 1) = Some (F * msPerDay - c)" .
  have "LocalTime tz (F * msPerDay - c) = F * msPerDay"
    using zu [of 0] by (simp add: LocalTime_def)
  then have w: "getDay tz (Some (F * msPerDay - c)) = Some ((F + 4) mod 7)"
    by (simp add: getDay_def WeekDay_def Day_whole_days)
  have r: "0 \<le> 1 - (F + 4) mod 7 + 7" by presburger
  have o: "(1 - (F + 4) mod 7 + 7) smod 7 = (1 - (F + 4) mod 7 + 7) mod 7"
    using r by (intro smod_nonneg) simp_all
  have r': "0 \<le> 8 - (F + 4) mod 7" by presburger
  have o': "(8 - (F + 4) mod 7) smod 7 = (8 - (F + 4) mod 7) mod 7"
    using r' by (intro smod_nonneg) simp_all
  have kr: "0 \<le> k - 1" "k - 1 \<le> 20"
    using nthMonday_arith(1,2) [where F = F and n = n] n unfolding k_def by simp_all
  have "getNthWeekdayOfMonth tz y (m + 1) 1 n = newDate3 tz (Some y) (Some m) (Some k)"
    unfolding getNthWeekdayOfMonth_def Let_def k_def by (simp add: f w o o')
  also have "\<dots> = TimeClip (MakeDay y m k * msPerDay - c)"
  proof (rule newDate3_zone [OF y])
    have "MakeDay y m k = F + (k - 1)" using md [of "k - 1"] by simp
    then show "offsetAtLocal tz (MakeDay y m k * msPerDay) = c" using zl [OF kr] by simp
  qed
  finally show ?thesis .
qed

lemma isHolidayFromFallback_valid:
  "isHolidayFromFallback tz fixedHolidays (Some t) \<longleftrightarrow>
     (MonthFromTime (LocalTime tz t) + 1, DateFromTime (LocalTime tz t))
        \<in> set [(1, 1), (2, 11), (4, 29), (5, 3), (5, 4), (5, 5), (8, 11), (11, 3), (11, 23), (12, 23)]
     \<or> (WeekDay (LocalTime tz t) = 1 \<and>
         (MonthFromTime (LocalTime tz t) + 1 = 1 \<and>
            Some (DateFromTime (LocalTime tz t))
              = getDate tz (secondMondayOfJanuary tz (YearFromTime (LocalTime tz t)))
          \<or> MonthFromTime (LocalTime tz t) + 1 = 7 \<and>
            Some (DateFromTime (LocalTime tz t))
              = getDate tz (getNthWeekdayOfMonth tz (YearFromTime (LocalTime tz t)) 7 1 3)
          \<or> MonthFromTime (LocalTime tz t) + 1 = 9 \<and>
            Some (DateFromTime (LocalTime tz t))
              = getDate tz (getNthWeekdayOfMonth tz (YearFromTime (LocalTime tz t)) 9 1 3)
          \<or> MonthFromTime (LocalTime tz t) + 1 = 10 \<and>
            Some (DateFromTime (LocalTime tz t))
              = getDate tz (getNthWeekdayOfMonth tz (YearFromTime (LocalTime tz t)) 10 1 2)))"
proof -
  have m: "0 \<le> MonthFromTime (LocalTime tz t) + 1"
    using MonthFromTime_range(1) [of "LocalTime tz t"] by simp
  have d: "0 \<le> DateFromTime (LocalTime tz t)"
    using DateFromTime_pos [of "LocalTime tz t"] by simp
  show ?thesis
    unfolding isHolidayFromFallback_def Let_def option.case fixedHolidays_member [OF m d] getDay_def option.map
    by (simp only: if_True if_False option.inject split: if_splits) blast
qed

lemma local_midnight_getDate:
  assumes m: "0 \<le> m" "m \<le> 11" and k: "1 \<le> k" "k \<le> 21"
    and zu: "offsetAtUTC tz (MakeDay y m k * msPerDay - c) = c"
  shows "getDate tz (Some (MakeDay y m k * msPerDay - c)) = Some k"
proof -
  have l: "LocalTime tz (MakeDay y m k * msPerDay - c) = MakeDay y m k * msPerDay"
    using zu by (simp add: LocalTime_def)
  have "DateFromTime (MakeDay y m k * msPerDay) = k"
    using k by (intro fields_of_MakeDay(3) [OF m, of k _ y]) (simp_all add: Day_whole_days)
  then show ?thesis by (simp add: getDate_def l)
qed

lemma secondMondayOfJanuary_zone:
  fixes y c :: int and tz :: timeZone
  defines "F \<equiv> MakeDay y 0 1"
  assumes y: "y < 0 \<or> 99 < y"
    and first: "- maxTime \<le> F * msPerDay - c" "F * msPerDay - c \<le> maxTime"
    and zone: "\<forall>j \<in> {0..20}. offsetAtLocal tz ((F + j) * msPerDay) = c
                 \<and> offsetAtUTC tz ((F + j) * msPerDay - c) = c"
  shows "secondMondayOfJanuary tz y = getNthWeekdayOfMonth tz y 1 1 2"
proof -
  define k where "k = 1 + (1 - (F + 4) mod 7 + 7) mod 7"
  have kr: "1 \<le> k" "k \<le> 7" unfolding k_def by presburger+
  have zl: "offsetAtLocal tz ((F + j) * msPerDay) = c"
    and zu: "offsetAtUTC tz ((F + j) * msPerDay - c) = c" if "0 \<le> j" "j \<le> 20" for j
    using zone that by simp_all
  have md: "MakeDay y 0 j = F + (j - 1)" for j
    unfolding F_def using MakeDay_add [of y 0 1 "j - 1"] by simp
  have n1: "getNthWeekdayOfMonth tz y (0 + 1) 1 1 = TimeClip (MakeDay y 0 k * msPerDay - c)"
    using getNthWeekdayOfMonth_monday [OF y, of 0 1 c tz] first zone
    unfolding F_def k_def by simp
  have n2: "getNthWeekdayOfMonth tz y (0 + 1) 1 2 = TimeClip (MakeDay y 0 (k + 7) * msPerDay - c)"
    using getNthWeekdayOfMonth_monday [OF y, of 0 2 c tz] first zone
    unfolding F_def k_def by (simp add: algebra_simps)
  let ?x = "MakeDay y 0 k * msPerDay - c"
  have x7: "MakeDay y 0 (k + 7) * msPerDay - c = ?x + 7 * msPerDay"
    unfolding MakeDay_add by (simp add: algebra_simps)
  show ?thesis
  proof (cases "TimeClip ?x")
    case None
    then have "maxTime < \<bar>?x\<bar>" by (simp add: TimeClip_def split: if_splits)
    moreover have "- maxTime \<le> ?x" using first(1) kr unfolding md by (simp add: msPerDay_def)
    ultimately have "maxTime < ?x + 7 * msPerDay" by (simp add: msPerDay_def)
    then have "TimeClip (?x + 7 * msPerDay) = None" by (simp add: TimeClip_def)
    then show ?thesis
      using n1 n2 None unfolding x7 by (simp add: secondMondayOfJanuary_def Let_def setDate_def)
  next
    case (Some u)
    then have u: "TimeClip ?x = Some ?x" using TimeClip_Some by auto
    have zx: "offsetAtUTC tz ?x = c" using zu [of "k - 1"] kr unfolding md by simp
    have gd: "getDate tz (Some ?x) = Some k"
      using kr zx by (intro local_midnight_getDate) simp_all
    have lx: "LocalTime tz ?x = MakeDay y 0 k * msPerDay" using zx by (simp add: LocalTime_def)
    have dx: "DateFromTime (MakeDay y 0 k * msPerDay) = k" using gd by (simp add: getDate_def lx)
    have "secondMondayOfJanuary tz y = setDate tz (Some ?x) (Some (k + 7))"
      using n1 u gd by (simp add: secondMondayOfJanuary_def Let_def)
    also have "\<dots> = TimeClip (UTC tz (MakeDay y 0 k * msPerDay + 7 * msPerDay))"
      unfolding setDate_valid lx dx by simp
    also have "MakeDay y 0 k * msPerDay + 7 * msPerDay = (F + (k + 6)) * msPerDay"
      unfolding md by (simp add: algebra_simps)
    also have "UTC tz ((F + (k + 6)) * msPerDay) = (F + (k + 6)) * msPerDay - c"
      using zl [of "k + 6"] kr by (simp add: UTC_def)
    also have "(F + (k + 6)) * msPerDay - c = MakeDay y 0 (k + 7) * msPerDay - c"
      unfolding md by simp
    finally show ?thesis using n2 by simp
  qed
qed

lemma Day_floor: "Day x * msPerDay \<le> x"
  using Day_TimeWithinDay [of x] by (simp add: TimeWithinDay_def msPerDay_def)

lemma monday_rule:
  fixes tz :: timeZone and t y m d c n :: int
  assumes valid: "t \<le> maxTime"
    and y: "YearFromTime (LocalTime tz t) = y" and m: "MonthFromTime (LocalTime tz t) = m"
    and d: "DateFromTime (LocalTime tz t) = d"
    and yr: "y < 0 \<or> 99 < y" and n: "1 \<le> n" "n \<le> 3"
    and first: "- maxTime \<le> MakeDay y m 1 * msPerDay - c"
    and zt: "offsetAtUTC tz t = c"
    and zone: "\<forall>j \<in> {0..20}. offsetAtLocal tz ((MakeDay y m 1 + j) * msPerDay) = c
                 \<and> offsetAtUTC tz ((MakeDay y m 1 + j) * msPerDay - c) = c"
  shows "WeekDay (LocalTime tz t) = 1 \<and> Some d = getDate tz (getNthWeekdayOfMonth tz y (m + 1) 1 n)
     \<longleftrightarrow> WeekDay (LocalTime tz t) = 1 \<and> 7 * (n - 1) < d \<and> d \<le> 7 * n"
    and "\<exists>k. 7 * (n - 1) < k \<and> k \<le> 7 * n \<and> WeekDay (MakeDay y m k * msPerDay) = 1
            \<and> getNthWeekdayOfMonth tz y (m + 1) 1 n = TimeClip (MakeDay y m k * msPerDay - c)"
    and "m = 0 \<Longrightarrow> secondMondayOfJanuary tz y = getNthWeekdayOfMonth tz y 1 1 2"
proof -
  define F where "F = MakeDay y m 1"
  define k where "k = 1 + (1 - (F + 4) mod 7 + 7) mod 7 + (n - 1) * 7"
  let ?L = "LocalTime tz t"
  have L: "?L = t + c" using zt by (simp add: LocalTime_def)
  have mr: "0 \<le> m" "m \<le> 11" using MonthFromTime_range [of ?L] m by simp_all
  have dr: "1 \<le> d" using DateFromTime_pos [of ?L] d by simp
  have md: "MakeDay y m j = F + (j - 1)" for j
    unfolding F_def using MakeDay_add [of y m 1 "j - 1"] by simp
  have day: "Day ?L = F + (d - 1)" using Day_of_fields [OF y m d] md by simp
  have "F * msPerDay \<le> Day ?L * msPerDay" using day dr by (simp add: msPerDay_def)
  also have "\<dots> \<le> ?L" by (rule Day_floor)
  finally have up: "F * msPerDay - c \<le> maxTime" using L valid by simp
  have lo: "- maxTime \<le> F * msPerDay - c" using first by (simp add: F_def)
  have z: "\<forall>j \<in> {0..20}. offsetAtLocal tz ((F + j) * msPerDay) = c
                 \<and> offsetAtUTC tz ((F + j) * msPerDay - c) = c"
    using zone by (simp add: F_def)
  have zu: "offsetAtUTC tz ((F + j) * msPerDay - c) = c" if "0 \<le> j" "j \<le> 20" for j
    using z that by simp
  have nth: "getNthWeekdayOfMonth tz y (m + 1) 1 n = TimeClip (MakeDay y m k * msPerDay - c)"
    using getNthWeekdayOfMonth_monday [OF yr mr n, of c tz] lo up z unfolding F_def k_def by simp
  have kb: "7 * (n - 1) < k" "k \<le> 7 * n" and km: "(F + k - 1 + 4) mod 7 = 1"
    using nthMonday_arith(1-3) [where F = F and n = n] unfolding k_def by simp_all
  have kr: "1 \<le> k" "k \<le> 21" using kb n by simp_all
  have gd: "getDate tz (Some (MakeDay y m k * msPerDay - c)) = Some k"
  proof (rule local_midnight_getDate [OF mr kr])
    show "offsetAtUTC tz (MakeDay y m k * msPerDay - c) = c"
      using zu [of "k - 1"] kr unfolding md by simp
  qed
  have wk: "WeekDay (MakeDay y m k * msPerDay) = 1"
    unfolding WeekDay_def Day_whole_days md using km by (simp add: algebra_simps)
  show "\<exists>k. 7 * (n - 1) < k \<and> k \<le> 7 * n \<and> WeekDay (MakeDay y m k * msPerDay) = 1
            \<and> getNthWeekdayOfMonth tz y (m + 1) 1 n = TimeClip (MakeDay y m k * msPerDay - c)"
    using kb wk nth by blast
  show "secondMondayOfJanuary tz y = getNthWeekdayOfMonth tz y 1 1 2" if "m = 0"
    using secondMondayOfJanuary_zone [OF yr, of c tz] lo up z unfolding F_def that by simp
  show "WeekDay ?L = 1 \<and> Some d = getDate tz (getNthWeekdayOfMonth tz y (m + 1) 1 n)
     \<longleftrightarrow> WeekDay ?L = 1 \<and> 7 * (n - 1) < d \<and> d \<le> 7 * n"
  proof (intro iffI conjI; elim conjE)
    assume w: "WeekDay ?L = 1" and e: "Some d = getDate tz (getNthWeekdayOfMonth tz y (m + 1) 1 n)"
    show "WeekDay ?L = 1" by (rule w)
    have "TimeClip (MakeDay y m k * msPerDay - c) \<noteq> None"
      using e unfolding nth by (cases "TimeClip (MakeDay y m k * msPerDay - c)") (simp_all add: getDate_def)
    then have "TimeClip (MakeDay y m k * msPerDay - c) = Some (MakeDay y m k * msPerDay - c)"
      using TimeClip_Some by auto
    then have "d = k" using e gd unfolding nth by simp
    then show "7 * (n - 1) < d" "d \<le> 7 * n" using kb by simp_all
  next
    assume w: "WeekDay ?L = 1" and b: "7 * (n - 1) < d" "d \<le> 7 * n"
    show "WeekDay ?L = 1" by (rule w)
    have "(F + d - 1 + 4) mod 7 = 1" using w unfolding WeekDay_def day by (simp add: algebra_simps)
    then have dk: "d = k" unfolding k_def by (intro nthMonday_arith(4) b)
    have "MakeDay y m k * msPerDay - c = Day ?L * msPerDay - c" unfolding day md dk by simp
    also have "\<dots> \<le> ?L - c" using Day_floor [of ?L] by simp
    finally have u: "MakeDay y m k * msPerDay - c \<le> maxTime" using L valid by simp
    have "F * msPerDay \<le> MakeDay y m k * msPerDay" unfolding md using kr by (simp add: msPerDay_def)
    then have l: "- maxTime \<le> MakeDay y m k * msPerDay - c" using lo by simp
    have "TimeClip (MakeDay y m k * msPerDay - c) = Some (MakeDay y m k * msPerDay - c)"
      using l u by (rule TimeClip_in_range)
    then show "Some d = getDate tz (getNthWeekdayOfMonth tz y (m + 1) 1 n)"
      unfolding nth using gd dk by simp
  qed
qed

lemma isHolidayFromFallback_invalid: "\<not> isHolidayFromFallback tz fixedHolidays None"
  by (simp add: isHolidayFromFallback_def fixedHolidays_def js_def)

lemma isHoliday_initializedFallback:
  "isHoliday tz initializedFallback d = ([], Inr (isHolidayFromFallback tz fixedHolidays d))"
  by (simp add: isHoliday_def initializedFallback_def)

lemma isHolidayFromFallback_mondays:
  fixes tz :: timeZone and t y m d c :: int
  assumes valid: "t \<le> maxTime"
    and y: "YearFromTime (LocalTime tz t) = y" and m: "MonthFromTime (LocalTime tz t) = m"
    and d: "DateFromTime (LocalTime tz t) = d"
    and yr: "y < 0 \<or> 99 < y"
    and first: "- maxTime \<le> MakeDay y m 1 * msPerDay - c"
    and zt: "offsetAtUTC tz t = c"
    and zone: "\<forall>j \<in> {0..20}. offsetAtLocal tz ((MakeDay y m 1 + j) * msPerDay) = c
                 \<and> offsetAtUTC tz ((MakeDay y m 1 + j) * msPerDay - c) = c"
  shows "isHolidayFromFallback tz fixedHolidays (Some t) \<longleftrightarrow>
     (m + 1, d) \<in> set [(1, 1), (2, 11), (4, 29), (5, 3), (5, 4), (5, 5), (8, 11), (11, 3), (11, 23), (12, 23)]
     \<or> (WeekDay (LocalTime tz t) = 1 \<and>
         (m + 1 = 1 \<and> 7 < d \<and> d \<le> 14 \<or> m + 1 = 7 \<and> 14 < d \<and> d \<le> 21
          \<or> m + 1 = 9 \<and> 14 < d \<and> d \<le> 21 \<or> m + 1 = 10 \<and> 7 < d \<and> d \<le> 14))"
proof -
  note r = monday_rule(1) [OF valid y m d yr _ _ first zt zone]
  have r2: "WeekDay (LocalTime tz t) = 1 \<and> Some d = getDate tz (getNthWeekdayOfMonth tz y (m + 1) 1 2)
     \<longleftrightarrow> WeekDay (LocalTime tz t) = 1 \<and> 7 < d \<and> d \<le> 14"
    using r [of 2] by simp
  have r3: "WeekDay (LocalTime tz t) = 1 \<and> Some d = getDate tz (getNthWeekdayOfMonth tz y (m + 1) 1 3)
     \<longleftrightarrow> WeekDay (LocalTime tz t) = 1 \<and> 14 < d \<and> d \<le> 21"
    using r [of 3] by simp
  have s: "m = 0 \<Longrightarrow> secondMondayOfJanuary tz y = getNthWeekdayOfMonth tz y 1 1 2"
    by (rule monday_rule(3) [OF valid y m d yr _ _ first zt zone, of 1]) simp_all
  consider "m = 0" | "m = 6" | "m = 8" | "m = 9" | "m \<noteq> 0 \<and> m \<noteq> 6 \<and> m \<noteq> 8 \<and> m \<noteq> 9" by blast
  then show ?thesis
  proof cases
    case 1
    then show ?thesis unfolding isHolidayFromFallback_valid y m d using r2 s by simp
  next
    case 2
    then show ?thesis unfolding isHolidayFromFallback_valid y m d using r3 by simp
  next
    case 3
    then show ?thesis unfolding isHolidayFromFallback_valid y m d using r3 by simp
  next
    case 4
    then show ?thesis unfolding isHolidayFromFallback_valid y m d using r2 by simp
  next
    case 5
    then show ?thesis unfolding isHolidayFromFallback_valid y m d by simp
  qed
qed

text \<open>
  Claim C7 (as amended). In fallback mode \<open>isHoliday\<close> on an invalid date returns false,
  and on a valid date it writes nothing and returns true exactly when the local month and
  day are one of the ten fixed pairs, or the date is a Monday whose day of the month is that
  of the date computed for the second Monday of January, the third Monday of July, the
  third Monday of September or the second Monday of October of its year (the first two
  conjuncts). The dates computed are those Mondays under three conditions: the year is not
  one of 0 to 99, which \<open>new Date(year, month, day)\<close> takes for 1900 to 1999; the first
  day of the date's month is within the range of time values; and the offset \<open>c\<close> of the
  host's time zone at the date is also its offset at the local midnights of the first 21
  days of the date's month. Then \<open>_getNthWeekdayOfMonth\<close> returns the local midnight of
  the \<open>n\<close>-th Monday of the month (\<open>n\<close> up to 3, clipped to the range), the second
  Monday of January obtained with \<open>setDate\<close> is the one \<open>_getNthWeekdayOfMonth\<close>
  gives, and \<open>isHoliday\<close> is true exactly on the ten fixed pairs and on the Mondays from
  the 8th to the 14th of January and October and from the 15th to the 21st of July and
  September; in particular it is true on 21 July 2025 and false on 14 July 2025. (For a
  year from 0 to 99 the claim fails, \<open>isHoliday_fallback_year_counterexample\<close>.)
\<close>

theorem isHoliday_fallback:
  "isHoliday tz initializedFallback None = ([], Inr False)
   \<and> isHoliday tz initializedFallback (Some t)
     = ([], Inr ((MonthFromTime (LocalTime tz t) + 1, DateFromTime (LocalTime tz t))
          \<in> set [(1, 1), (2, 11), (4, 29), (5, 3), (5, 4), (5, 5), (8, 11), (11, 3), (11, 23), (12, 23)]
        \<or> (WeekDay (LocalTime tz t) = 1 \<and>
            (MonthFromTime (LocalTime tz t) + 1 = 1 \<and>
               Some (DateFromTime (LocalTime tz t))
                 = getDate tz (secondMondayOfJanuary tz (YearFromTime (LocalTime tz t)))
             \<or> MonthFromTime (LocalTime tz t) + 1 = 7 \<and>
               Some (DateFromTime (LocalTime tz t))
                 = getDate tz (getNthWeekdayOfMonth tz (YearFromTime (LocalTime tz t)) 7 1 3)
             \<or> MonthFromTime (LocalTime tz t) + 1 = 9 \<and>
               Some (DateFromTime (LocalTime tz t))
                 = getDate tz (getNthWeekdayOfMonth tz (YearFromTime (LocalTime tz t)) 9 1 3)
             \<or> MonthFromTime (LocalTime tz t) + 1 = 10 \<and>
               Some (DateFromTime (LocalTime tz t))
                 = getDate tz (getNthWeekdayOfMonth tz (YearFromTime (LocalTime tz t)) 10 1 2)))))
   \<and> (- maxTime \<le> t \<and> t \<le> maxTime
        \<and> YearFromTime (LocalTime tz t) = y \<and> MonthFromTime (LocalTime tz t) = m
        \<and> DateFromTime (LocalTime tz t) = d
        \<and> (y < 0 \<or> 99 < y)
        \<and> - maxTime \<le> MakeDay y m 1 * msPerDay - c
        \<and> offsetAtUTC tz t = c
        \<and> (\<forall>j \<in> {0..20}. offsetAtLocal tz ((MakeDay y m 1 + j) * msPerDay) = c
                 \<and> offsetAtUTC tz ((MakeDay y m 1 + j) * msPerDay - c) = c)
      \<longrightarrow>
        isHoliday tz initializedFallback (Some t)
          = ([], Inr ((m + 1, d)
               \<in> set [(1, 1), (2, 11), (4, 29), (5, 3), (5, 4), (5, 5), (8, 11), (11, 3), (11, 23), (12, 23)]
             \<or> (WeekDay (LocalTime tz t) = 1 \<and>
                 (m + 1 = 1 \<and> 7 < d \<and> d \<le> 14 \<or> m + 1 = 7 \<and> 14 < d \<and> d \<le> 21
                  \<or> m + 1 = 9 \<and> 14 < d \<and> d \<le> 21 \<or> m + 1 = 10 \<and> 7 < d \<and> d \<le> 14))))
        \<and> (\<forall>n \<in> {1, 2, 3}. \<exists>k. 7 * (n - 1) < k \<and> k \<le> 7 * n
               \<and> WeekDay (MakeDay y m k * msPerDay) = 1
               \<and> getNthWeekdayOfMonth tz y (m + 1) 1 n = TimeClip (MakeDay y m k * msPerDay - c))
        \<and> (m = 0 \<longrightarrow> secondMondayOfJanuary tz y = getNthWeekdayOfMonth tz y 1 1 2)
        \<and> (y = 2025 \<and> m = 6 \<and> d = 21 \<longrightarrow>
              isHoliday tz initializedFallback (Some t) = ([], Inr True))
        \<and> (y = 2025 \<and> m = 6 \<and> d = 14 \<longrightarrow>
              isHoliday tz initializedFallback (Some t) = ([], Inr False)))"
proof (intro conjI impI; (elim conjE)?)
  show "isHoliday tz initializedFallback None = ([], Inr False)"
    unfolding isHoliday_initializedFallback using isHolidayFromFallback_invalid by simp
  show "isHoliday tz initializedFallback (Some t)
     = ([], Inr ((MonthFromTime (LocalTime tz t) + 1, DateFromTime (LocalTime tz t))
          \<in> set [(1, 1), (2, 11), (4, 29), (5, 3), (5, 4), (5, 5), (8, 11), (11, 3), (11, 23), (12, 23)]
        \<or> (WeekDay (LocalTime tz t) = 1 \<and>
            (MonthFromTime (LocalTime tz t) + 1 = 1 \<and>
               Some (DateFromTime (LocalTime tz t))
                 = getDate tz (secondMondayOfJanuary tz (YearFromTime (LocalTime tz t)))
             \<or> MonthFromTime (LocalTime tz t) + 1 = 7 \<and>
               Some (DateFromTime (LocalTime tz t))
                 = getDate tz (getNthWeekdayOfMonth tz (YearFromTime (LocalTime tz t)) 7 1 3)
             \<or> MonthFromTime (LocalTime tz t) + 1 = 9 \<and>
               Some (DateFromTime (LocalTime tz t))
                 = getDate tz (getNthWeekdayOfMonth tz (YearFromTime (LocalTime tz t)) 9 1 3)
             \<or> MonthFromTime (LocalTime tz t) + 1 = 10 \<and>
               Some (DateFromTime (LocalTime tz t))
                 = getDate tz (getNthWeekdayOfMonth tz (YearFromTime (LocalTime tz t)) 10 1 2)))))"
    unfolding isHoliday_initializedFallback by (simp only: isHolidayFromFallback_valid)
next
  assume valid: "t \<le> maxTime"
    and y: "YearFromTime (LocalTime tz t) = y" and m: "MonthFromTime (LocalTime tz t) = m"
    and d: "DateFromTime (LocalTime tz t) = d"
    and yr: "y < 0 \<or> 99 < y"
    and first: "- maxTime \<le> MakeDay y m 1 * msPerDay - c"
    and zt: "offsetAtUTC tz t = c"
    and zone: "\<forall>j \<in> {0..20}. offsetAtLocal tz ((MakeDay y m 1 + j) * msPerDay) = c
                 \<and> offsetAtUTC tz ((MakeDay y m 1 + j) * msPerDay - c) = c"
  note abs = isHolidayFromFallback_mondays [OF valid y m d yr first zt zone]
  show "isHoliday tz initializedFallback (Some t)
          = ([], Inr ((m + 1, d)
               \<in> set [(1, 1), (2, 11), (4, 29), (5, 3), (5, 4), (5, 5), (8, 11), (11, 3), (11, 23), (12, 23)]
             \<or> (WeekDay (LocalTime tz t) = 1 \<and>
                 (m + 1 = 1 \<and> 7 < d \<and> d \<le> 14 \<or> m + 1 = 7 \<and> 14 < d \<and> d \<le> 21
                  \<or> m + 1 = 9 \<and> 14 < d \<and> d \<le> 21 \<or> m + 1 = 10 \<and> 7 < d \<and> d \<le> 14))))"
    unfolding isHoliday_initializedFallback by (simp only: abs)
  show "\<forall>n \<in> {1, 2, 3}. \<exists>k. 7 * (n - 1) < k \<and> k \<le> 7 * n
               \<and> WeekDay (MakeDay y m k * msPerDay) = 1
               \<and> getNthWeekdayOfMonth tz y (m + 1) 1 n = TimeClip (MakeDay y m k * msPerDay - c)"
  proof
    fix n :: int
    assume "n \<in> {1, 2, 3}"
    then have n: "1 \<le> n" "n \<le> 3" by auto
    show "\<exists>k. 7 * (n - 1) < k \<and> k \<le> 7 * n
               \<and> WeekDay (MakeDay y m k * msPerDay) = 1
               \<and> getNthWeekdayOfMonth tz y (m + 1) 1 n = TimeClip (MakeDay y m k * msPerDay - c)"
      by (rule monday_rule(2) [OF valid y m d yr n first zt zone])
  qed
  show "secondMondayOfJanuary tz y = getNthWeekdayOfMonth tz y 1 1 2" if "m = 0"
    by (rule monday_rule(3) [OF valid y m d yr _ _ first zt zone, of 1]) (simp_all add: that)
  have day: "Day (LocalTime tz t) = MakeDay y m d" by (rule Day_of_fields [OF y m d])
  show "isHoliday tz initializedFallback (Some t) = ([], Inr True)"
    if e: "y = 2025" "m = 6" "d = 21"
  proof -
    have "Day (LocalTime tz t) = 20290"
      unfolding day e by (simp add: MakeDay_def DayFromYear_def monthStart_def leapDays_def DaysInYear_def)
    then have "WeekDay (LocalTime tz t) = 1" by (simp add: WeekDay_def)
    then show ?thesis unfolding isHoliday_initializedFallback abs e by simp
  qed
  show "isHoliday tz initializedFallback (Some t) = ([], Inr False)"
    if e: "y = 2025" "m = 6" "d = 14"
    unfolding isHoliday_initializedFallback abs e by simp
qed

lemma july_2025_fields:
  "YearFromTime (LocalTime (fixedOffset 32400000) 1753059600000) = 2025"
  "MonthFromTime (LocalTime (fixedOffset 32400000) 1753059600000) = 6"
  "DateFromTime (LocalTime (fixedOffset 32400000) 1753059600000) = 21"
  "YearFromTime (LocalTime (fixedOffset 32400000) 1752454800000) = 2025"
  "MonthFromTime (LocalTime (fixedOffset 32400000) 1752454800000) = 6"
  "DateFromTime (LocalTime (fixedOffset 32400000) 1752454800000) = 14"
  "YearFromTime (LocalTime (fixedOffset 32400000) 1736694000000) = 2025"
  "MonthFromTime (LocalTime (fixedOffset 32400000) 1736694000000) = 0"
  "DateFromTime (LocalTime (fixedOffset 32400000) 1736694000000) = 13"
  "WeekDay (LocalTime (fixedOffset 32400000) 1736694000000) = 1"
  by (simp_all add: calendar_eval)

lemma year_50_fields:
  "YearFromTime (LocalTime (fixedOffset 32400000) (- 60588550800000)) = 50"
  "MonthFromTime (LocalTime (fixedOffset 32400000) (- 60588550800000)) = 0"
  "DateFromTime (LocalTime (fixedOffset 32400000) (- 60588550800000)) = 10"
  "WeekDay (LocalTime (fixedOffset 32400000) (- 60588550800000)) = 1"
  by (simp_all add: calendar_eval)

lemma firstMonday_january_50:
  "getNthWeekdayOfMonth (fixedOffset 32400000) 50 1 1 1 = Some (- 631098000000)"
  by (simp add: getNthWeekdayOfMonth_def Let_def newDate3_valid getDay_def TimeClip_def maxTime_def
      MakeDay_def signed_modulo_int_def calendar_eval)

lemma firstMonday_january_50_date:
  "DateFromTime (LocalTime (fixedOffset 32400000) (- 631098000000)) = 2"
  by (simp add: calendar_eval)

lemma secondMonday_january_50:
  "secondMondayOfJanuary (fixedOffset 32400000) 50 = Some (- 630493200000)"
  unfolding secondMondayOfJanuary_def Let_def firstMonday_january_50 getDate_def option.map
    setDate_fixed firstMonday_january_50_date
  by (simp add: TimeClip_def maxTime_def msPerDay_def)

lemma secondMonday_january_50_fields:
  "YearFromTime (LocalTime (fixedOffset 32400000) (- 630493200000)) = 1950"
  "MonthFromTime (LocalTime (fixedOffset 32400000) (- 630493200000)) = 0"
  "DateFromTime (LocalTime (fixedOffset 32400000) (- 630493200000)) = 9"
  by (simp_all add: calendar_eval)

text \<open>
  Monday 10 January of the year 50 in Japan, the second Monday of that January: the
  Monday computed is that of January 1950, the 9th, and the answer is false.
\<close>

theorem isHoliday_fallback_year_counterexample:
  "getFullYear (fixedOffset 32400000) (Some (- 60588550800000)) = Some 50
   \<and> getMonth (fixedOffset 32400000) (Some (- 60588550800000)) = Some 0
   \<and> getDate (fixedOffset 32400000) (Some (- 60588550800000)) = Some 10
   \<and> getDay (fixedOffset 32400000) (Some (- 60588550800000)) = Some 1
   \<and> getFullYear (fixedOffset 32400000) (secondMondayOfJanuary (fixedOffset 32400000) 50) = Some 1950
   \<and> getDate (fixedOffset 32400000) (secondMondayOfJanuary (fixedOffset 32400000) 50) = Some 9
   \<and> isHoliday (fixedOffset 32400000) initializedFallback (Some (- 60588550800000)) = ([], Inr False)"
  by (simp add: getFullYear_def getMonth_def getDate_def getDay_def year_50_fields
      secondMonday_january_50 secondMonday_january_50_fields isHoliday_initializedFallback
      isHolidayFromFallback_valid)

text \<open>
  In Japan: Monday 21 July 2025 at 10:00, Monday 14 July 2025 at 10:00 and Monday 13
  January 2025 at 0:00.
\<close>

theorem isHoliday_fallback_witness:
  "- maxTime \<le> 1753059600000 \<and> 1753059600000 \<le> maxTime
   \<and> YearFromTime (LocalTime (fixedOffset 32400000) 1753059600000) = 2025
   \<and> MonthFromTime (LocalTime (fixedOffset 32400000) 1753059600000) = 6
   \<and> DateFromTime (LocalTime (fixedOffset 32400000) 1753059600000) = 21
   \<and> - maxTime \<le> MakeDay 2025 6 1 * msPerDay - 32400000
   \<and> offsetAtUTC (fixedOffset 32400000) 1753059600000 = 32400000
   \<and> isHoliday (fixedOffset 32400000) initializedFallback (Some 1753059600000) = ([], Inr True)
   \<and> YearFromTime (LocalTime (fixedOffset 32400000) 1752454800000) = 2025
   \<and> MonthFromTime (LocalTime (fixedOffset 32400000) 1752454800000) = 6
   \<and> DateFromTime (LocalTime (fixedOffset 32400000) 1752454800000) = 14
   \<and> isHoliday (fixedOffset 32400000) initializedFallback (Some 1752454800000) = ([], Inr False)
   \<and> YearFromTime (LocalTime (fixedOffset 32400000) 1736694000000) = 2025
   \<and> MonthFromTime (LocalTime (fixedOffset 32400000) 1736694000000) = 0
   \<and> DateFromTime (LocalTime (fixedOffset 32400000) 1736694000000) = 13
   \<and> WeekDay (LocalTime (fixedOffset 32400000) 1736694000000) = 1
   \<and> isHoliday (fixedOffset 32400000) initializedFallback (Some 1736694000000) = ([], Inr True)"
proof -
  have r: "- maxTime \<le> 1753059600000" "1753059600000 \<le> maxTime"
    "- maxTime \<le> 1752454800000" "1752454800000 \<le> maxTime"
    "- maxTime \<le> 1736694000000" "1736694000000 \<le> maxTime"
    by (simp_all add: maxTime_def)
  have f: "- maxTime \<le> MakeDay 2025 6 1 * msPerDay - 32400000"
    "- maxTime \<le> MakeDay 2025 0 1 * msPerDay - 32400000"
    by (simp_all add: maxTime_def msPerDay_def MakeDay_def DayFromYear_def monthStart_def
        leapDays_def DaysInYear_def)
  have z: "offsetAtUTC (fixedOffset 32400000) u = 32400000"
    "\<forall>j \<in> {0..20}. offsetAtLocal (fixedOffset 32400000) ((MakeDay y m 1 + j) * msPerDay) = 32400000
        \<and> offsetAtUTC (fixedOffset 32400000) ((MakeDay y m 1 + j) * msPerDay - 32400000) = 32400000"
    for u y m
    by (simp_all add: fixedOffset_def)
  have yr: "(2025::int) < 0 \<or> 99 < (2025::int)" by simp
  have ha: "- maxTime \<le> 1753059600000 \<and> 1753059600000 \<le> maxTime
        \<and> YearFromTime (LocalTime (fixedOffset 32400000) 1753059600000) = 2025
        \<and> MonthFromTime (LocalTime (fixedOffset 32400000) 1753059600000) = 6
        \<and> DateFromTime (LocalTime (fixedOffset 32400000) 1753059600000) = 21
        \<and> ((2025::int) < 0 \<or> 99 < (2025::int))
        \<and> - maxTime \<le> MakeDay 2025 6 1 * msPerDay - 32400000
        \<and> offsetAtUTC (fixedOffset 32400000) 1753059600000 = 32400000
        \<and> (\<forall>j \<in> {0..20}. offsetAtLocal (fixedOffset 32400000) ((MakeDay 2025 6 1 + j) * msPerDay) = 32400000
                 \<and> offsetAtUTC (fixedOffset 32400000) ((MakeDay 2025 6 1 + j) * msPerDay - 32400000) = 32400000)"
    by (intro conjI r f z yr july_2025_fields)
  have hb: "- maxTime \<le> 1752454800000 \<and> 1752454800000 \<le> maxTime
        \<and> YearFromTime (LocalTime (fixedOffset 32400000) 1752454800000) = 2025
        \<and> MonthFromTime (LocalTime (fixedOffset 32400000) 1752454800000) = 6
        \<and> DateFromTime (LocalTime (fixedOffset 32400000) 1752454800000) = 14
        \<and> ((2025::int) < 0 \<or> 99 < (2025::int))
        \<and> - maxTime \<le> MakeDay 2025 6 1 * msPerDay - 32400000
        \<and> offsetAtUTC (fixedOffset 32400000) 1752454800000 = 32400000
        \<and> (\<forall>j \<in> {0..20}. offsetAtLocal (fixedOffset 32400000) ((MakeDay 2025 6 1 + j) * msPerDay) = 32400000
                 \<and> offsetAtUTC (fixedOffset 32400000) ((MakeDay 2025 6 1 + j) * msPerDay - 32400000) = 32400000)"
    by (intro conjI r f z yr july_2025_fields)
  have hc: "- maxTime \<le> 1736694000000 \<and> 1736694000000 \<le> maxTime
        \<and> YearFromTime (LocalTime (fixedOffset 32400000) 1736694000000) = 2025
        \<and> MonthFromTime (LocalTime (fixedOffset 32400000) 1736694000000) = 0
        \<and> DateFromTime (LocalTime (fixedOffset 32400000) 1736694000000) = 13
        \<and> ((2025::int) < 0 \<or> 99 < (2025::int))
        \<and> - maxTime \<le> MakeDay 2025 0 1 * msPerDay - 32400000
        \<and> offsetAtUTC (fixedOffset 32400000) 1736694000000 = 32400000
        \<and> (\<forall>j \<in> {0..20}. offsetAtLocal (fixedOffset 32400000) ((MakeDay 2025 0 1 + j) * msPerDay) = 32400000
                 \<and> offsetAtUTC (fixedOffset 32400000) ((MakeDay 2025 0 1 + j) * msPerDay - 32400000) = 32400000)"
    by (intro conjI r f z yr july_2025_fields)
  note a = isHoliday_fallback [of "fixedOffset 32400000" 1753059600000 2025 6 21 32400000,
      THEN conjunct2, THEN conjunct2, THEN mp, OF ha]
  note b = isHoliday_fallback [of "fixedOffset 32400000" 1752454800000 2025 6 14 32400000,
      THEN conjunct2, THEN conjunct2, THEN mp, OF hb]
  note c = isHoliday_fallback [of "fixedOffset 32400000" 1736694000000 2025 0 13 32400000,
      THEN conjunct2, THEN conjunct2, THEN mp, OF hc]
  have a': "isHoliday (fixedOffset 32400000) initializedFallback (Some 1753059600000) = ([], Inr True)"
    by (rule a [THEN conjunct2, THEN conjunct2, THEN conjunct2, THEN conjunct1, THEN mp]) simp
  have b': "isHoliday (fixedOffset 32400000) initializedFallback (Some 1752454800000) = ([], Inr False)"
    by (rule b [THEN conjunct2, THEN conjunct2, THEN conjunct2, THEN conjunct2, THEN mp]) simp
  have c': "isHoliday (fixedOffset 32400000) initializedFallback (Some 1736694000000) = ([], Inr True)"
    using c [THEN conjunct1] by (simp add: july_2025_fields)
  show ?thesis
    by (intro conjI r f z july_2025_fields a' b' c')
qed

section \<open>Merging contiguous candidates\<close>

































lemma groupByDate_two_different:
  assumes "getDateKey tz (date_c a) \<noteq> getDateKey tz (date_c b)"
  shows "groupByDate tz [a, b] = [(getDateKey tz (date_c a), [a]), (getDateKey tz (date_c b), [b])]"
  using assms by (auto simp: groupByDate_def)



lemma mergeContiguous_two_different:
  assumes "getDateKey tz (date_c a) \<noteq> getDateKey tz (date_c b)"
  shows "mergeContiguous tz [a, b] = [a, b]"
  using assms by (simp add: mergeContiguous_def groupByDate_two_different sortBy_def)




















end
